theory Spec2Isabelle
  imports Main "HOL-Library.Word"
begin

unbundle bit_operations_syntax

section \<open>Data model\<close>

text \<open>
  The file node of \<^verbatim>\<open>kbfsfuse/file.go\<close> and what it touches. Every operation of the
  source runs while holding the folder lock, so one operation is modelled as one
  sequential state transformer; the lock itself is not part of the model.

  \<^verbatim>\<open>libkbfs.PathNode\<close> carries a name and an opaque backend token; \<^verbatim>\<open>libkbfs.Path\<close> is a
  struct whose field \<^verbatim>\<open>Path\<close> is the root-first slice of path nodes (the only field the
  source reads or writes).
\<close>

type_synonym byte = "8 word"

type_synonym Context = nat

record PathNode =
  BlockPointer :: nat
  Name :: string

record Path =
  Path :: "PathNode list"

text \<open>
  A Go run-time panic. Indexing outside a slice and reslicing outside its capacity are
  the two that the file node's code can reach.
\<close>

datatype panic = IndexOutOfRange | SliceBoundsOutOfRange

text \<open>Go's \<^verbatim>\<open>xs[i]\<close> and \<^verbatim>\<open>xs[:j]\<close> on a slice of length \<open>length xs\<close>, with \<^verbatim>\<open>int\<close> indices.\<close>

definition index :: "'a list \<Rightarrow> int \<Rightarrow> panic + 'a" where
  "index xs i = (if 0 \<le> i \<and> i < int (length xs) then Inr (xs ! nat i) else Inl IndexOutOfRange)"

definition slice_to :: "'a list \<Rightarrow> int \<Rightarrow> panic + 'a list" where
  "slice_to xs j =
     (if 0 \<le> j \<and> j \<le> int (length xs) then Inr (take (nat j) xs) else Inl SliceBoundsOutOfRange)"

text \<open>
  A directory node as the file node sees it: its own path node and the chain of parents
  up to the root of the folder (the root has no parent). The pointer chain of the
  source is a tree, so the chain is a value here, and an update of an ancestor returns
  the updated chain.
\<close>

datatype Dir = Dir (Dir_parent: "Dir option") (Dir_pathNode: PathNode)

record File =
  parent :: Dir
  pathNode :: PathNode

section \<open>Path reconstruction\<close>

text \<open>
  Modelled from the spec: \<^verbatim>\<open>Dir.getPathLocked\<close> (the directory node's source is not part
  of the files at hand). Section 4.2: the full Path is obtained by recursively asking the
  parent for its Path and appending this node's own PathNode.
\<close>

fun Dir_getPathLocked :: "Dir \<Rightarrow> Path" where
  "Dir_getPathLocked (Dir None n) = \<lparr>Path = [n]\<rparr>"
| "Dir_getPathLocked (Dir (Some d) n) =
     (let p = Dir_getPathLocked d in p\<lparr>Path := Path p @ [n]\<rparr>)"

text \<open>\<^verbatim>\<open>File.getPathLocked\<close>: the parent's path with the file's node appended.\<close>

definition getPathLocked :: "File \<Rightarrow> Path" where
  "getPathLocked f = (let p = Dir_getPathLocked (parent f) in p\<lparr>Path := Path p @ [pathNode f]\<rparr>)"

section \<open>Path propagation\<close>

text \<open>
  Modelled from the spec: \<^verbatim>\<open>Dir.updatePathLocked\<close> (the directory node's source is not
  part of the files at hand). Section 4.3: the routine takes a Path whose last element is
  this node's new identity; on a name mismatch the update is dropped; otherwise the new
  PathNode is stored, the last element stripped and the parent asked to do the same,
  terminating at the root. A Path with no last element gives the out-of-range access
  that the same steps give in the file node's routine.
\<close>

fun Dir_updatePathLocked :: "Path \<Rightarrow> Dir \<Rightarrow> (panic + unit) \<times> Dir" where
  "Dir_updatePathLocked p (Dir par n) =
     (case index (Path p) (int (length (Path p)) - 1) of
        Inl e \<Rightarrow> (Inl e, Dir par n)
      | Inr pNode \<Rightarrow>
          if Name n \<noteq> Name pNode then (Inr (), Dir par n)
          else (case par of
                  None \<Rightarrow> (Inr (), Dir None pNode)
                | Some d \<Rightarrow>
                    (case slice_to (Path p) (int (length (Path p)) - 1) of
                       Inl e \<Rightarrow> (Inl e, Dir (Some d) pNode)
                     | Inr ps \<Rightarrow>
                         (let (r, d') = Dir_updatePathLocked (p\<lparr>Path := ps\<rparr>) d
                          in (r, Dir (Some d') pNode)))))"

text \<open>
  \<^verbatim>\<open>File.updatePathLocked\<close>. The result pairs the outcome (a panic, or a normal return)
  with the node as the call leaves it: an assignment made before a panic stays made.
\<close>

definition updatePathLocked :: "Path \<Rightarrow> File \<Rightarrow> (panic + unit) \<times> File" where
  "updatePathLocked p f =
     (case index (Path p) (int (length (Path p)) - 1) of
        Inl e \<Rightarrow> (Inl e, f)
      | Inr pNode \<Rightarrow>
          if Name (pathNode f) \<noteq> Name pNode then (Inr (), f)
          else (let f1 = f\<lparr>pathNode := pNode\<rparr> in
                case slice_to (Path p) (int (length (Path p)) - 1) of
                  Inl e \<Rightarrow> (Inl e, f1)
                | Inr ps \<Rightarrow>
                    (let (r, d') = Dir_updatePathLocked (p\<lparr>Path := ps\<rparr>) (parent f1)
                     in (r, f1\<lparr>parent := d'\<rparr>))))"

section \<open>The backend and the state of one operation\<close>

text \<open>
  Go's \<^verbatim>\<open>error\<close> values: \<^verbatim>\<open>fuse.ENOSYS\<close>, the cross-device errno, and whatever else the
  backend may return. A returned \<^verbatim>\<open>error\<close> is an \<open>error option\<close>, \<open>None\<close> for \<^verbatim>\<open>nil\<close>.
\<close>

datatype error = ENOSYS | EXDEV | OtherError nat

type_synonym result = "panic + error option"

text \<open>\<^verbatim>\<open>libkbfs.EntryType\<close> and \<^verbatim>\<open>libkbfs.DirEntry\<close>; the source compares the type with \<^verbatim>\<open>Exec\<close>.\<close>

datatype EntryType = FileType | Exec | DirType | Sym

record DirEntry =
  Type :: EntryType
  Size :: "64 word"
  Mtime :: int
  Ctime :: int

text \<open>
  \<^verbatim>\<open>libkbfs.KBFSOps\<close>, the backend, as a record of operations over a backend state
  \<open>'b\<close>. The source calls Sync, Read, Write, Truncate, SetEx and SetMtime on it; Stat is
  the stat operation of the backend contract (section 6), which \<^verbatim>\<open>statPath\<close> reaches.
  An operation that returns a Path and an error in Go returns one or the other
  here (the source never reads the Path next to a non-nil error). \<^verbatim>\<open>Read\<close> receives the
  destination buffer and returns the bytes it stores at its start, the count and the error.
  Offsets and counts are Go's \<^verbatim>\<open>int64\<close> and \<^verbatim>\<open>int\<close>, which the source only passes on.
\<close>

record 'b KBFSOps =
  Stat :: "Context \<Rightarrow> Path \<Rightarrow> 'b \<Rightarrow> (error + DirEntry) \<times> 'b"
  Read :: "Context \<Rightarrow> Path \<Rightarrow> byte list \<Rightarrow> int \<Rightarrow> 'b \<Rightarrow> (byte list \<times> int \<times> error option) \<times> 'b"
  Write :: "Context \<Rightarrow> Path \<Rightarrow> byte list \<Rightarrow> int \<Rightarrow> 'b \<Rightarrow> error option \<times> 'b"
  Truncate :: "Context \<Rightarrow> Path \<Rightarrow> 64 word \<Rightarrow> 'b \<Rightarrow> error option \<times> 'b"
  SetEx :: "Context \<Rightarrow> Path \<Rightarrow> bool \<Rightarrow> 'b \<Rightarrow> (error + Path) \<times> 'b"
  SetMtime :: "Context \<Rightarrow> Path \<Rightarrow> int \<Rightarrow> 'b \<Rightarrow> (error + Path) \<times> 'b"
  Sync :: "Context \<Rightarrow> Path \<Rightarrow> 'b \<Rightarrow> (error + Path) \<times> 'b"

text \<open>
  The calls made to the backend, in order. The list is not in the source: it records
  which backend operations a call of the file node performs, with their arguments.
\<close>

datatype call =
    Call_Stat Context Path
  | Call_Read Context Path "byte list" int
  | Call_Write Context Path "byte list" int
  | Call_Truncate Context Path "64 word"
  | Call_SetEx Context Path bool
  | Call_SetMtime Context Path int
  | Call_Sync Context Path

record 'b state =
  node :: File
  kbfs :: 'b
  calls :: "call list"

definition KBFSOps_Stat :: "'b KBFSOps \<Rightarrow> Context \<Rightarrow> Path \<Rightarrow> 'b state \<Rightarrow> (error + DirEntry) \<times> 'b state" where
  "KBFSOps_Stat ops ctx p s =
     (let (r, b) = KBFSOps.Stat ops ctx p (kbfs s)
      in (r, s\<lparr>kbfs := b, calls := calls s @ [Call_Stat ctx p]\<rparr>))"

definition KBFSOps_Read ::
  "'b KBFSOps \<Rightarrow> Context \<Rightarrow> Path \<Rightarrow> byte list \<Rightarrow> int \<Rightarrow> 'b state \<Rightarrow> (byte list \<times> int \<times> error option) \<times> 'b state" where
  "KBFSOps_Read ops ctx p dest off s =
     (let (r, b) = KBFSOps.Read ops ctx p dest off (kbfs s)
      in (r, s\<lparr>kbfs := b, calls := calls s @ [Call_Read ctx p dest off]\<rparr>))"

definition KBFSOps_Write ::
  "'b KBFSOps \<Rightarrow> Context \<Rightarrow> Path \<Rightarrow> byte list \<Rightarrow> int \<Rightarrow> 'b state \<Rightarrow> error option \<times> 'b state" where
  "KBFSOps_Write ops ctx p d off s =
     (let (r, b) = KBFSOps.Write ops ctx p d off (kbfs s)
      in (r, s\<lparr>kbfs := b, calls := calls s @ [Call_Write ctx p d off]\<rparr>))"

definition KBFSOps_Truncate ::
  "'b KBFSOps \<Rightarrow> Context \<Rightarrow> Path \<Rightarrow> 64 word \<Rightarrow> 'b state \<Rightarrow> error option \<times> 'b state" where
  "KBFSOps_Truncate ops ctx p sz s =
     (let (r, b) = KBFSOps.Truncate ops ctx p sz (kbfs s)
      in (r, s\<lparr>kbfs := b, calls := calls s @ [Call_Truncate ctx p sz]\<rparr>))"

definition KBFSOps_SetEx ::
  "'b KBFSOps \<Rightarrow> Context \<Rightarrow> Path \<Rightarrow> bool \<Rightarrow> 'b state \<Rightarrow> (error + Path) \<times> 'b state" where
  "KBFSOps_SetEx ops ctx p ex s =
     (let (r, b) = KBFSOps.SetEx ops ctx p ex (kbfs s)
      in (r, s\<lparr>kbfs := b, calls := calls s @ [Call_SetEx ctx p ex]\<rparr>))"

definition KBFSOps_SetMtime ::
  "'b KBFSOps \<Rightarrow> Context \<Rightarrow> Path \<Rightarrow> int \<Rightarrow> 'b state \<Rightarrow> (error + Path) \<times> 'b state" where
  "KBFSOps_SetMtime ops ctx p t s =
     (let (r, b) = KBFSOps.SetMtime ops ctx p t (kbfs s)
      in (r, s\<lparr>kbfs := b, calls := calls s @ [Call_SetMtime ctx p t]\<rparr>))"

definition KBFSOps_Sync :: "'b KBFSOps \<Rightarrow> Context \<Rightarrow> Path \<Rightarrow> 'b state \<Rightarrow> (error + Path) \<times> 'b state" where
  "KBFSOps_Sync ops ctx p s =
     (let (r, b) = KBFSOps.Sync ops ctx p (kbfs s)
      in (r, s\<lparr>kbfs := b, calls := calls s @ [Call_Sync ctx p]\<rparr>))"

section \<open>Attr\<close>

text \<open>\<^verbatim>\<open>fuse.Attr\<close>: the fields the file node's code can reach, and two it never sets.\<close>

record Attr =
  Size :: "64 word"
  Atime :: int
  Mtime :: int
  Ctime :: int
  Mode :: "32 word"
  Nlink :: "32 word"

text \<open>
  Modelled from the spec: \<^verbatim>\<open>statPath\<close> (a helper whose source is not part of the files at
  hand). Section 4.4: Attr reconstructs the Path and calls the backend's Stat on it, which
  gives a descriptor or an error.
\<close>

definition statPath :: "'b KBFSOps \<Rightarrow> Context \<Rightarrow> Path \<Rightarrow> 'b state \<Rightarrow> (error + DirEntry) \<times> 'b state" where
  "statPath ops ctx p s = KBFSOps_Stat ops ctx p s"

text \<open>
  Modelled from the spec: \<^verbatim>\<open>fillAttr\<close> (a helper whose source is not part of the files at
  hand). Section 4.4: size and timestamps are copied verbatim from the stat result.
\<close>

definition fillAttr :: "DirEntry \<Rightarrow> Attr \<Rightarrow> Attr" where
  "fillAttr de a = a\<lparr>Attr.Size := DirEntry.Size de, Attr.Mtime := DirEntry.Mtime de,
                     Attr.Ctime := DirEntry.Ctime de\<rparr>"

text \<open>\<^verbatim>\<open>File.Attr\<close>. The octal literals of the source are \<open>0644 = 420\<close> and \<open>0111 = 73\<close>.\<close>

definition Attr :: "'b KBFSOps \<Rightarrow> Context \<Rightarrow> Attr \<Rightarrow> 'b state \<Rightarrow> error option \<times> Attr \<times> 'b state" where
  "Attr ops ctx a s =
     (let p = getPathLocked (node s);
          (r, s1) = statPath ops ctx p s
      in case r of
           Inl err \<Rightarrow> (Some err, a, s1)
         | Inr de \<Rightarrow>
             (let a1 = fillAttr de a;
                  a2 = a1\<lparr>Mode := 420\<rparr>;
                  a3 = (if Type de = Exec then a2\<lparr>Mode := Mode a2 OR 73\<rparr> else a2)
              in (None, a3, s1)))"

section \<open>Sync, Fsync and Flush\<close>

text \<open>
  \<^verbatim>\<open>File.sync\<close>, and the two handlers that call it. The request records of Fsync and Flush
  are never read by the source; they are arguments of any type here.
\<close>

definition sync :: "'b KBFSOps \<Rightarrow> Context \<Rightarrow> 'b state \<Rightarrow> result \<times> 'b state" where
  "sync ops ctx s =
     (let (r, s1) = KBFSOps_Sync ops ctx (getPathLocked (node s)) s
      in case r of
           Inl err \<Rightarrow> (Inr (Some err), s1)
         | Inr p \<Rightarrow>
             (let (u, f) = updatePathLocked p (node s1);
                  s2 = s1\<lparr>node := f\<rparr>
              in case u of Inl pan \<Rightarrow> (Inl pan, s2) | Inr _ \<Rightarrow> (Inr None, s2)))"

definition Fsync :: "'b KBFSOps \<Rightarrow> Context \<Rightarrow> 'q \<Rightarrow> 'b state \<Rightarrow> result \<times> 'b state" where
  "Fsync ops ctx req s = sync ops ctx s"

definition Flush :: "'b KBFSOps \<Rightarrow> Context \<Rightarrow> 'q \<Rightarrow> 'b state \<Rightarrow> result \<times> 'b state" where
  "Flush ops ctx req s = sync ops ctx s"

section \<open>Read and Write\<close>

text \<open>
  A Go byte slice: the part of its backing array from the slice's start to its capacity,
  and its length. The bytes of the slice are the first \<open>len\<close> of the array.
\<close>

record ByteSlice =
  array :: "byte list"
  len :: nat

definition cap :: "ByteSlice \<Rightarrow> nat" where
  "cap b = length (array b)"

definition bytes :: "ByteSlice \<Rightarrow> byte list" where
  "bytes b = take (len b) (array b)"

text \<open>\<^verbatim>\<open>b[:n]\<close> for a slice: legal up to the capacity.\<close>

definition reslice_to :: "ByteSlice \<Rightarrow> int \<Rightarrow> panic + ByteSlice" where
  "reslice_to b n =
     (if 0 \<le> n \<and> n \<le> int (cap b) then Inr (b\<lparr>len := nat n\<rparr>) else Inl SliceBoundsOutOfRange)"

text \<open>
  The backend writes into the buffer it is given, in place: the bytes it stores replace
  the start of the array, never more than the array holds, and the rest stays.
\<close>

definition store :: "byte list \<Rightarrow> byte list \<Rightarrow> byte list" where
  "store old bs = take (length old) (bs @ drop (length bs) old)"

record ReadRequest =
  Offset :: int

record ReadResponse =
  Data :: ByteSlice

text \<open>\<^verbatim>\<open>File.Read\<close>.\<close>

definition Read ::
  "'b KBFSOps \<Rightarrow> Context \<Rightarrow> ReadRequest \<Rightarrow> ReadResponse \<Rightarrow> 'b state \<Rightarrow> result \<times> ReadResponse \<times> 'b state" where
  "Read ops ctx req resp s =
     (let p = getPathLocked (node s);
          ((bs, n, err), s1) =
             KBFSOps_Read ops ctx p (array (Data resp)) (ReadRequest.Offset req) s;
          buf = (Data resp)\<lparr>array := store (array (Data resp)) bs\<rparr>
      in case reslice_to buf n of
           Inl pan \<Rightarrow> (Inl pan, resp\<lparr>Data := buf\<rparr>, s1)
         | Inr d \<Rightarrow> (Inr err, resp\<lparr>Data := d\<rparr>, s1))"

record WriteRequest =
  Data :: "byte list"
  Offset :: int

record WriteResponse =
  Size :: int

text \<open>\<^verbatim>\<open>File.Write\<close>.\<close>

definition Write ::
  "'b KBFSOps \<Rightarrow> Context \<Rightarrow> WriteRequest \<Rightarrow> WriteResponse \<Rightarrow> 'b state \<Rightarrow> error option \<times> WriteResponse \<times> 'b state" where
  "Write ops ctx req resp s =
     (let p = getPathLocked (node s);
          (e, s1) = KBFSOps_Write ops ctx p (WriteRequest.Data req) (WriteRequest.Offset req) s
      in case e of
           Some err \<Rightarrow> (Some err, resp, s1)
         | None \<Rightarrow> (None, resp\<lparr>WriteResponse.Size := int (length (WriteRequest.Data req))\<rparr>, s1))"

section \<open>Setattr\<close>

text \<open>
  \<^verbatim>\<open>fuse.SetattrValid\<close> is a \<^verbatim>\<open>uint32\<close> of bit flags; the constants are those of the
  \<^verbatim>\<open>bazil.org/fuse\<close> package (\<^verbatim>\<open>1 << 0\<close> for the mode up to \<^verbatim>\<open>1 << 9\<close> for the lock
  owner). The source names six of them; the owner and group flags stand for the fields
  it does not name.
\<close>

definition SetattrMode :: "32 word" where "SetattrMode = push_bit 0 1"
definition SetattrUid :: "32 word" where "SetattrUid = push_bit 1 1"
definition SetattrGid :: "32 word" where "SetattrGid = push_bit 2 1"
definition SetattrSize :: "32 word" where "SetattrSize = push_bit 3 1"
definition SetattrAtime :: "32 word" where "SetattrAtime = push_bit 4 1"
definition SetattrMtime :: "32 word" where "SetattrMtime = push_bit 5 1"
definition SetattrHandle :: "32 word" where "SetattrHandle = push_bit 6 1"
definition SetattrLockOwner :: "32 word" where "SetattrLockOwner = push_bit 9 1"

record SetattrRequest =
  Valid :: "32 word"
  Size :: "64 word"
  Atime :: int
  Mtime :: int
  Mode :: "32 word"

text \<open>
  \<^verbatim>\<open>File.Setattr\<close>, block by block. Each block either returns from the call (\<open>Inl\<close>, with
  the value returned) or falls through to the next with the remaining flags (\<open>Inr\<close>).
  The response record is never touched by the source and is left out; so is the log line
  written before \<^verbatim>\<open>ENOSYS\<close> is returned. The octal \<open>0100\<close> of the source is \<open>64\<close>.
\<close>

definition Setattr_size ::
  "'b KBFSOps \<Rightarrow> Context \<Rightarrow> SetattrRequest \<Rightarrow> 32 word \<Rightarrow> 'b state \<Rightarrow> (result + 32 word) \<times> 'b state" where
  "Setattr_size ops ctx req valid s =
     (if valid AND SetattrSize \<noteq> 0 then
        (let (e, s1) = KBFSOps_Truncate ops ctx (getPathLocked (node s)) (SetattrRequest.Size req) s
         in case e of
              Some err \<Rightarrow> (Inl (Inr (Some err)), s1)
            | None \<Rightarrow> (Inr (valid AND NOT SetattrSize), s1))
      else (Inr valid, s))"

definition Setattr_mode ::
  "'b KBFSOps \<Rightarrow> Context \<Rightarrow> SetattrRequest \<Rightarrow> 32 word \<Rightarrow> 'b state \<Rightarrow> (result + 32 word) \<times> 'b state" where
  "Setattr_mode ops ctx req valid s =
     (if valid AND SetattrMode \<noteq> 0 then
        (let exec = (SetattrRequest.Mode req AND 64 \<noteq> 0);
             (r, s1) = KBFSOps_SetEx ops ctx (getPathLocked (node s)) exec s
         in case r of
              Inl err \<Rightarrow> (Inl (Inr (Some err)), s1)
            | Inr p \<Rightarrow>
                (let (u, f) = updatePathLocked p (node s1);
                     s2 = s1\<lparr>node := f\<rparr>
                 in case u of
                      Inl pan \<Rightarrow> (Inl (Inl pan), s2)
                    | Inr _ \<Rightarrow> (Inr (valid AND NOT SetattrMode), s2)))
      else (Inr valid, s))"

definition Setattr_mtime ::
  "'b KBFSOps \<Rightarrow> Context \<Rightarrow> SetattrRequest \<Rightarrow> 32 word \<Rightarrow> 'b state \<Rightarrow> (result + 32 word) \<times> 'b state" where
  "Setattr_mtime ops ctx req valid s =
     (if valid AND SetattrMtime \<noteq> 0 then
        (let (r, s1) = KBFSOps_SetMtime ops ctx (getPathLocked (node s)) (SetattrRequest.Mtime req) s
         in case r of
              Inl err \<Rightarrow> (Inl (Inr (Some err)), s1)
            | Inr p \<Rightarrow>
                (let (u, f) = updatePathLocked p (node s1);
                     s2 = s1\<lparr>node := f\<rparr>
                 in case u of
                      Inl pan \<Rightarrow> (Inl (Inl pan), s2)
                    | Inr _ \<Rightarrow> (Inr (valid AND NOT SetattrMtime), s2)))
      else (Inr valid, s))"

definition Setattr_rest :: "32 word \<Rightarrow> error option" where
  "Setattr_rest valid =
     (let valid1 = valid AND NOT SetattrAtime;
          valid2 = valid1 AND NOT (SetattrLockOwner OR SetattrHandle)
      in if valid2 \<noteq> 0 then Some ENOSYS else None)"

definition Setattr :: "'b KBFSOps \<Rightarrow> Context \<Rightarrow> SetattrRequest \<Rightarrow> 'b state \<Rightarrow> result \<times> 'b state" where
  "Setattr ops ctx req s =
     (case Setattr_size ops ctx req (Valid req) s of
        (Inl r, s1) \<Rightarrow> (r, s1)
      | (Inr valid1, s1) \<Rightarrow>
          (case Setattr_mode ops ctx req valid1 s1 of
             (Inl r, s2) \<Rightarrow> (r, s2)
           | (Inr valid2, s2) \<Rightarrow>
               (case Setattr_mtime ops ctx req valid2 s2 of
                  (Inl r, s3) \<Rightarrow> (r, s3)
                | (Inr valid3, s3) \<Rightarrow> (Inr (Setattr_rest valid3), s3))))"

section \<open>Rename across roots\<close>

text \<open>
  A path under the mount is the name of its root folder and the names below it. The link
  error carries the operation name, the two paths and an error code. Each root has its
  own backend state, and the calls made to the backend's rename are listed.
\<close>

record LinkError =
  Op :: string
  Old :: "string \<times> string list"
  New :: "string \<times> string list"
  Err :: error

record 'b mount =
  folders :: "string \<Rightarrow> 'b"
  backend_calls :: "(string \<times> string list \<times> string list) list"

text \<open>
  Modelled from the spec: the directory node's Rename (its source is not part of the files
  at hand; only the mount test of the cross-folder case is). Sections 7 and 8: a rename
  whose two ends lie under different roots is rejected locally, without calling the
  backend, with a link-style error carrying the operation name, both paths and the
  cross-device code, and nothing is modified; a rename inside one root is a mutating
  backend call whose errors propagate unchanged. The backend's rename is a parameter.
\<close>

definition Rename ::
  "(string list \<Rightarrow> string list \<Rightarrow> 'b \<Rightarrow> error option \<times> 'b) \<Rightarrow>
   string \<times> string list \<Rightarrow> string \<times> string list \<Rightarrow> 'b mount \<Rightarrow> LinkError option \<times> 'b mount" where
  "Rename backend_rename old new m =
     (if fst old \<noteq> fst new then
        (Some \<lparr>Op = ''rename'', Old = old, New = new, Err = EXDEV\<rparr>, m)
      else
        (let (e, b) = backend_rename (snd old) (snd new) (folders m (fst old));
             m1 = m\<lparr>folders := (folders m)(fst old := b),
                    backend_calls := backend_calls m @ [(fst old, snd old, snd new)]\<rparr>
         in case e of
              Some err \<Rightarrow> (Some \<lparr>Op = ''rename'', Old = old, New = new, Err = err\<rparr>, m1)
            | None \<Rightarrow> (None, m1)))"

section \<open>Concrete inputs\<close>

text \<open>
  A file \<^verbatim>\<open>myfile\<close> directly under the root \<^verbatim>\<open>jdoe\<close>, a backend that answers every
  mutating call with the same path under a fresh version number, and a backend whose every
  call fails with the same error.
\<close>

definition versioned :: "nat \<Rightarrow> Path \<Rightarrow> Path" where
  "versioned v p = p\<lparr>Path := map (\<lambda>n. n\<lparr>BlockPointer := v\<rparr>) (Path p)\<rparr>"

definition demo_ops :: "nat KBFSOps" where
  "demo_ops =
     \<lparr>Stat = (\<lambda>ctx p b. (Inr \<lparr>Type = Exec, DirEntry.Size = 13, DirEntry.Mtime = 100,
                                 DirEntry.Ctime = 200\<rparr>, b)),
      Read = (\<lambda>ctx p dest off b. (([104, 105], 2, None), b)),
      Write = (\<lambda>ctx p d off b. (None, Suc b)),
      Truncate = (\<lambda>ctx p sz b. (None, Suc b)),
      SetEx = (\<lambda>ctx p ex b. (Inr (versioned (Suc b) p), Suc b)),
      SetMtime = (\<lambda>ctx p t b. (Inr (versioned (Suc b) p), Suc b)),
      Sync = (\<lambda>ctx p b. (Inr (versioned (Suc b) p), Suc b))\<rparr>"

definition failing_ops :: "nat KBFSOps" where
  "failing_ops =
     \<lparr>Stat = (\<lambda>ctx p b. (Inl (OtherError 5), b)),
      Read = (\<lambda>ctx p dest off b. (([], 0, Some (OtherError 5)), b)),
      Write = (\<lambda>ctx p d off b. (Some (OtherError 5), b)),
      Truncate = (\<lambda>ctx p sz b. (Some (OtherError 5), b)),
      SetEx = (\<lambda>ctx p ex b. (Inl (OtherError 5), b)),
      SetMtime = (\<lambda>ctx p t b. (Inl (OtherError 5), b)),
      Sync = (\<lambda>ctx p b. (Inl (OtherError 5), b))\<rparr>"

definition demo_file :: File where
  "demo_file = \<lparr>parent = Dir None \<lparr>BlockPointer = 1, Name = ''jdoe''\<rparr>,
                 pathNode = \<lparr>BlockPointer = 2, Name = ''myfile''\<rparr>\<rparr>"

definition demo_state :: "nat state" where
  "demo_state = \<lparr>node = demo_file, kbfs = 7, calls = []\<rparr>"

definition demo_path :: Path where
  "demo_path = \<lparr>Path = [\<lparr>BlockPointer = 1, Name = ''jdoe''\<rparr>, \<lparr>BlockPointer = 2, Name = ''myfile''\<rparr>]\<rparr>"

definition new_path :: Path where
  "new_path = \<lparr>Path = [\<lparr>BlockPointer = 11, Name = ''jdoe''\<rparr>, \<lparr>BlockPointer = 12, Name = ''myfile''\<rparr>]\<rparr>"

definition stale_path :: Path where
  "stale_path = \<lparr>Path = [\<lparr>BlockPointer = 11, Name = ''jdoe''\<rparr>, \<lparr>BlockPointer = 12, Name = ''other''\<rparr>]\<rparr>"

definition demo_attr :: Attr where
  "demo_attr = \<lparr>Attr.Size = 0, Attr.Atime = 0, Attr.Mtime = 0, Attr.Ctime = 0, Attr.Mode = 0,
                 Attr.Nlink = 1\<rparr>"

definition chmod_req :: "32 word \<Rightarrow> SetattrRequest" where
  "chmod_req m = \<lparr>Valid = SetattrMode, Size = 0, Atime = 0, Mtime = 0, Mode = m\<rparr>"

definition size_uid_req :: SetattrRequest where
  "size_uid_req = \<lparr>Valid = SetattrSize OR SetattrUid, Size = 0, Atime = 0, Mtime = 0, Mode = 0\<rparr>"

definition size_mode_req :: SetattrRequest where
  "size_mode_req = \<lparr>Valid = SetattrSize OR SetattrMode, Size = 0, Atime = 0, Mtime = 0, Mode = 493\<rparr>"

definition mode_mtime_req :: SetattrRequest where
  "mode_mtime_req = \<lparr>Valid = SetattrMode OR SetattrMtime, Size = 0, Atime = 0, Mtime = 100, Mode = 493\<rparr>"

definition mode_uid_req :: SetattrRequest where
  "mode_uid_req = \<lparr>Valid = SetattrMode OR SetattrUid, Size = 0, Atime = 0, Mtime = 0, Mode = 493\<rparr>"

definition mtime_uid_req :: SetattrRequest where
  "mtime_uid_req = \<lparr>Valid = SetattrMtime OR SetattrUid, Size = 0, Atime = 0, Mtime = 100, Mode = 0\<rparr>"

definition atime_req :: SetattrRequest where
  "atime_req = \<lparr>Valid = SetattrAtime, Size = 0, Atime = 5, Mtime = 0, Mode = 0\<rparr>"

definition size_req :: SetattrRequest where
  "size_req = \<lparr>Valid = SetattrSize, Size = 4, Atime = 0, Mtime = 0, Mode = 0\<rparr>"

definition write_req :: WriteRequest where
  "write_req = \<lparr>WriteRequest.Data = [104, 105, 10], WriteRequest.Offset = 0\<rparr>"

definition read_resp :: ReadResponse where
  "read_resp = \<lparr>ReadResponse.Data = \<lparr>array = [0, 0, 0, 0], len = 0\<rparr>\<rparr>"

text \<open>
  The mount of the cross-folder rename test: \<^verbatim>\<open>old\<close> exists under \<^verbatim>\<open>jdoe\<close>, nothing under
  \<^verbatim>\<open>wsmith,jdoe\<close>; a root's backend state maps the names below it to contents.
\<close>

definition tree_rename ::
  "string list \<Rightarrow> string list \<Rightarrow> (string list \<rightharpoonup> string) \<Rightarrow> error option \<times> (string list \<rightharpoonup> string)" where
  "tree_rename old new t =
     (case t old of
        None \<Rightarrow> (Some (OtherError 2), t)
      | Some c \<Rightarrow> (None, (t(old := None))(new \<mapsto> c)))"

definition demo_mount :: "(string list \<rightharpoonup> string) mount" where
  "demo_mount =
     \<lparr>folders = (\<lambda>r. if r = ''jdoe'' then [[''old''] \<mapsto> ''hello, world''] else Map.empty),
      backend_calls = []\<rparr>"

text \<open>The flags that \<^verbatim>\<open>File.Setattr\<close> clears: every other flag is one it does not recognise.\<close>

abbreviation handled :: "32 word" where
  "handled \<equiv> SetattrSize OR SetattrMode OR SetattrMtime OR SetattrAtime OR SetattrLockOwner OR SetattrHandle"

section \<open>Facts about Go indexing and the flag word\<close>

lemma index_last: "xs \<noteq> [] \<Longrightarrow> index xs (int (length xs) - 1) = Inr (last xs)"
  by (simp add: index_def last_conv_nth nat_diff_distrib')

lemma index_empty: "index [] i = Inl IndexOutOfRange"
  by (simp add: index_def)

lemma slice_to_butlast: "xs \<noteq> [] \<Longrightarrow> slice_to xs (int (length xs) - 1) = Inr (butlast xs)"
  by (simp add: slice_to_def butlast_conv_take nat_diff_distrib')

lemma length_store: "length (store old bs) = length old"
  by (simp add: store_def)

lemmas Setattr_flags = SetattrMode_def SetattrUid_def SetattrGid_def SetattrSize_def
  SetattrAtime_def SetattrMtime_def SetattrHandle_def SetattrLockOwner_def

lemma bit_flags:
  "bit SetattrMode n \<longleftrightarrow> n = 0"
  "bit SetattrUid n \<longleftrightarrow> n = 1"
  "bit SetattrGid n \<longleftrightarrow> n = 2"
  "bit SetattrSize n \<longleftrightarrow> n = 3"
  "bit SetattrAtime n \<longleftrightarrow> n = 4"
  "bit SetattrMtime n \<longleftrightarrow> n = 5"
  "bit SetattrHandle n \<longleftrightarrow> n = 6"
  "bit SetattrLockOwner n \<longleftrightarrow> n = 9"
  unfolding Setattr_flags bit_push_bit_iff bit_1_iff possible_bit_word
  by auto

lemma valid_eq_iff: "(a::32 word) = b \<longleftrightarrow> (\<forall>n<32. bit a n = bit b n)"
  by (simp add: bit_eq_iff)

lemma clear_absent: "(v::32 word) AND F = 0 \<Longrightarrow> v AND NOT F = v"
  by (auto simp add: valid_eq_iff bit_and_iff bit_not_iff)

lemmas valid_bits = valid_eq_iff bit_and_iff bit_or_iff bit_not_iff bit_flags

section \<open>Facts about the blocks of Setattr\<close>

lemma node_KBFSOps:
  "KBFSOps_Stat ops ctx p s = (r1, s1) \<Longrightarrow> node s1 = node s"
  "KBFSOps_Read ops ctx p dest off s = (r2, s2) \<Longrightarrow> node s2 = node s"
  "KBFSOps_Write ops ctx p d off s = (r3, s3) \<Longrightarrow> node s3 = node s"
  "KBFSOps_Truncate ops ctx p sz s = (r4, s4) \<Longrightarrow> node s4 = node s"
  "KBFSOps_SetEx ops ctx p ex s = (r5, s5) \<Longrightarrow> node s5 = node s"
  "KBFSOps_SetMtime ops ctx p t s = (r6, s6) \<Longrightarrow> node s6 = node s"
  "KBFSOps_Sync ops ctx p s = (r7, s7) \<Longrightarrow> node s7 = node s"
  by (auto simp add: KBFSOps_Stat_def KBFSOps_Read_def KBFSOps_Write_def KBFSOps_Truncate_def
      KBFSOps_SetEx_def KBFSOps_SetMtime_def KBFSOps_Sync_def split: prod.splits)

lemma Setattr_size_node: "node (snd (Setattr_size ops ctx req valid s)) = node s"
  by (auto simp add: Setattr_size_def Let_def split: prod.splits option.splits
      dest: node_KBFSOps(4))

lemma Setattr_size_valid:
  "Setattr_size ops ctx req valid s = (Inr v, s1) \<Longrightarrow> v = valid AND NOT SetattrSize"
  by (auto simp add: Setattr_size_def Let_def clear_absent
      split: prod.splits option.splits if_splits)

lemma Setattr_mode_valid:
  "Setattr_mode ops ctx req valid s = (Inr v, s1) \<Longrightarrow> v = valid AND NOT SetattrMode"
  by (auto simp add: Setattr_mode_def Let_def clear_absent
      split: prod.splits option.splits sum.splits if_splits)

lemma Setattr_mtime_valid:
  "Setattr_mtime ops ctx req valid s = (Inr v, s1) \<Longrightarrow> v = valid AND NOT SetattrMtime"
  by (auto simp add: Setattr_mtime_def Let_def clear_absent
      split: prod.splits option.splits sum.splits if_splits)

lemma Setattr_size_skip:
  "valid AND SetattrSize = 0 \<Longrightarrow> Setattr_size ops ctx req valid s = (Inr valid, s)"
  by (simp add: Setattr_size_def)

lemma Setattr_mode_skip:
  "valid AND SetattrMode = 0 \<Longrightarrow> Setattr_mode ops ctx req valid s = (Inr valid, s)"
  by (simp add: Setattr_mode_def)

lemma Setattr_mtime_skip:
  "valid AND SetattrMtime = 0 \<Longrightarrow> Setattr_mtime ops ctx req valid s = (Inr valid, s)"
  by (simp add: Setattr_mtime_def)

lemma Setattr_block_returns:
  "Setattr_size ops ctx req v s = (Inl r, s1) \<Longrightarrow> r \<noteq> Inr None"
  "Setattr_mode ops ctx req v s = (Inl r, s1) \<Longrightarrow> r \<noteq> Inr None"
  "Setattr_mtime ops ctx req v s = (Inl r, s1) \<Longrightarrow> r \<noteq> Inr None"
  by (auto simp add: Setattr_size_def Setattr_mode_def Setattr_mtime_def Let_def
      split: prod.splits option.splits sum.splits if_splits)

lemma Setattr_rest_zero: "Setattr_rest 0 = None"
  by (simp add: Setattr_rest_def)

lemma Setattr_rest_unhandled:
  assumes "v AND NOT handled \<noteq> 0"
  shows "Setattr_rest (((v AND NOT SetattrSize) AND NOT SetattrMode) AND NOT SetattrMtime) = Some ENOSYS"
proof -
  have "((((v AND NOT SetattrSize) AND NOT SetattrMode) AND NOT SetattrMtime) AND NOT SetattrAtime)
          AND NOT (SetattrLockOwner OR SetattrHandle) = v AND NOT handled"
    by (auto simp add: valid_bits)
  with assms show ?thesis by (simp add: Setattr_rest_def)
qed

lemma Setattr_falls_through:
  assumes "Setattr_size ops ctx req (Valid req) s = (Inr v1, s1)"
    and "Setattr_mode ops ctx req v1 s1 = (Inr v2, s2)"
    and "Setattr_mtime ops ctx req v2 s2 = (Inr v3, s3)"
    and "Valid req AND NOT handled \<noteq> 0"
  shows "Setattr ops ctx req s = (Inr (Some ENOSYS), s3)"
proof -
  have "v1 = Valid req AND NOT SetattrSize"
    by (rule Setattr_size_valid [OF assms(1)])
  moreover have "v2 = v1 AND NOT SetattrMode"
    by (rule Setattr_mode_valid [OF assms(2)])
  moreover have "v3 = v2 AND NOT SetattrMtime"
    by (rule Setattr_mtime_valid [OF assms(3)])
  ultimately have "v3 = ((Valid req AND NOT SetattrSize) AND NOT SetattrMode) AND NOT SetattrMtime"
    by simp
  with assms show ?thesis
    by (simp add: Setattr_def Setattr_rest_unhandled)
qed

lemma Setattr_never_succeeds:
  assumes "Valid req AND NOT handled \<noteq> 0"
  shows "fst (Setattr ops ctx req s) \<noteq> Inr None"
proof -
  obtain r1 s1 where p1: "Setattr_size ops ctx req (Valid req) s = (r1, s1)"
    by (cases "Setattr_size ops ctx req (Valid req) s")
  show ?thesis
  proof (cases r1)
    case (Inl r)
    with p1 show ?thesis by (simp add: Setattr_def Setattr_block_returns(1))
  next
    case v1: (Inr v1)
    obtain r2 s2 where p2: "Setattr_mode ops ctx req v1 s1 = (r2, s2)"
      by (cases "Setattr_mode ops ctx req v1 s1")
    show ?thesis
    proof (cases r2)
      case (Inl r)
      with p1 v1 p2 show ?thesis by (simp add: Setattr_def Setattr_block_returns(2))
    next
      case v2: (Inr v2)
      obtain r3 s3 where p3: "Setattr_mtime ops ctx req v2 s2 = (r3, s3)"
        by (cases "Setattr_mtime ops ctx req v2 s2")
      show ?thesis
      proof (cases r3)
        case (Inl r)
        with p1 v1 p2 v2 p3 show ?thesis by (simp add: Setattr_def Setattr_block_returns(3))
      next
        case (Inr v3)
        with p1 v1 p2 v2 p3 assms have "Setattr ops ctx req s = (Inr (Some ENOSYS), s3)"
          by (simp add: Setattr_falls_through)
        then show ?thesis by simp
      qed
    qed
  qed
qed

subsection \<open>The access-time flag and value are never read\<close>

lemma Setattr_size_Atime:
  "Setattr_size ops ctx (req\<lparr>Valid := x, SetattrRequest.Atime := t\<rparr>) v s = Setattr_size ops ctx req v s"
  by (simp add: Setattr_size_def)

lemma Setattr_mode_Atime:
  "Setattr_mode ops ctx (req\<lparr>Valid := x, SetattrRequest.Atime := t\<rparr>) v s = Setattr_mode ops ctx req v s"
  by (simp add: Setattr_mode_def)

lemma Setattr_mtime_Atime:
  "Setattr_mtime ops ctx (req\<lparr>Valid := x, SetattrRequest.Atime := t\<rparr>) v s = Setattr_mtime ops ctx req v s"
  by (simp add: Setattr_mtime_def)

lemma or_atime_tests:
  "((v OR SetattrAtime) AND SetattrSize \<noteq> 0) = (v AND SetattrSize \<noteq> 0)"
  "((v OR SetattrAtime) AND SetattrMode \<noteq> 0) = (v AND SetattrMode \<noteq> 0)"
  "((v OR SetattrAtime) AND SetattrMtime \<noteq> 0) = (v AND SetattrMtime \<noteq> 0)"
  "(v OR SetattrAtime) AND NOT SetattrSize = (v AND NOT SetattrSize) OR SetattrAtime"
  "(v OR SetattrAtime) AND NOT SetattrMode = (v AND NOT SetattrMode) OR SetattrAtime"
  "(v OR SetattrAtime) AND NOT SetattrMtime = (v AND NOT SetattrMtime) OR SetattrAtime"
  by (auto simp add: valid_bits)

lemma Setattr_size_or_atime:
  "Setattr_size ops ctx req (v OR SetattrAtime) s =
     (case Setattr_size ops ctx req v s of
        (Inl r, s1) \<Rightarrow> (Inl r, s1)
      | (Inr v1, s1) \<Rightarrow> (Inr (v1 OR SetattrAtime), s1))"
  by (simp add: Setattr_size_def or_atime_tests Let_def split: prod.splits option.splits)

lemma Setattr_mode_or_atime:
  "Setattr_mode ops ctx req (v OR SetattrAtime) s =
     (case Setattr_mode ops ctx req v s of
        (Inl r, s1) \<Rightarrow> (Inl r, s1)
      | (Inr v1, s1) \<Rightarrow> (Inr (v1 OR SetattrAtime), s1))"
  by (simp add: Setattr_mode_def or_atime_tests Let_def split: prod.splits sum.splits)

lemma Setattr_mtime_or_atime:
  "Setattr_mtime ops ctx req (v OR SetattrAtime) s =
     (case Setattr_mtime ops ctx req v s of
        (Inl r, s1) \<Rightarrow> (Inl r, s1)
      | (Inr v1, s1) \<Rightarrow> (Inr (v1 OR SetattrAtime), s1))"
  by (simp add: Setattr_mtime_def or_atime_tests Let_def split: prod.splits sum.splits)

lemma Setattr_rest_or_atime: "Setattr_rest (v OR SetattrAtime) = Setattr_rest v"
proof -
  have "(v OR SetattrAtime) AND NOT SetattrAtime = v AND NOT SetattrAtime"
    by (auto simp add: valid_bits)
  then show ?thesis by (simp add: Setattr_rest_def)
qed

lemma Setattr_atime_ignored:
  "Setattr ops ctx (req\<lparr>Valid := Valid req OR SetattrAtime, SetattrRequest.Atime := t\<rparr>) s =
   Setattr ops ctx req s"
  by (auto simp add: Setattr_def Setattr_size_Atime Setattr_mode_Atime Setattr_mtime_Atime
      Setattr_size_or_atime Setattr_mode_or_atime Setattr_mtime_or_atime Setattr_rest_or_atime
      split: prod.splits sum.splits)

lemma Setattr_atime_only:
  assumes "Valid req = SetattrAtime"
  shows "Setattr ops ctx req s = (Inr None, s)"
proof -
  have "Setattr_size ops ctx req SetattrAtime s = (Inr SetattrAtime, s)"
    by (rule Setattr_size_skip) (simp add: Setattr_flags)
  moreover have "Setattr_mode ops ctx req SetattrAtime s = (Inr SetattrAtime, s)"
    by (rule Setattr_mode_skip) (simp add: Setattr_flags)
  moreover have "Setattr_mtime ops ctx req SetattrAtime s = (Inr SetattrAtime, s)"
    by (rule Setattr_mtime_skip) (simp add: Setattr_flags)
  moreover have "Setattr_rest SetattrAtime = None"
    by (simp add: Setattr_rest_def)
  ultimately show ?thesis using assms by (simp add: Setattr_def)
qed

subsection \<open>Only one bit of the requested mode is read\<close>

lemma Setattr_size_Mode:
  "Setattr_size ops ctx (req\<lparr>SetattrRequest.Mode := m\<rparr>) v s = Setattr_size ops ctx req v s"
  by (simp add: Setattr_size_def)

lemma Setattr_mtime_Mode:
  "Setattr_mtime ops ctx (req\<lparr>SetattrRequest.Mode := m\<rparr>) v s = Setattr_mtime ops ctx req v s"
  by (simp add: Setattr_mtime_def)

lemma Setattr_mode_Mode:
  "m AND 64 = m' AND 64 \<Longrightarrow>
   Setattr_mode ops ctx (req\<lparr>SetattrRequest.Mode := m\<rparr>) v s =
   Setattr_mode ops ctx (req\<lparr>SetattrRequest.Mode := m'\<rparr>) v s"
  by (simp add: Setattr_mode_def)

lemma Setattr_Mode:
  "m AND 64 = m' AND 64 \<Longrightarrow>
   Setattr ops ctx (req\<lparr>SetattrRequest.Mode := m\<rparr>) s =
   Setattr ops ctx (req\<lparr>SetattrRequest.Mode := m'\<rparr>) s"
  by (auto simp add: Setattr_def Setattr_size_Mode Setattr_mtime_Mode Setattr_mode_Mode [of m m']
      split: prod.splits sum.splits)

lemma Setattr_mode_run:
  assumes "valid AND SetattrMode \<noteq> 0"
    and "KBFSOps.SetEx ops ctx (getPathLocked (node s)) (SetattrRequest.Mode req AND 64 \<noteq> 0) (kbfs s) = (r, b)"
  shows "Setattr_mode ops ctx req valid s =
     (case r of
        Inl err \<Rightarrow>
          (Inl (Inr (Some err)),
           s\<lparr>kbfs := b, calls := calls s @ [Call_SetEx ctx (getPathLocked (node s))
                 (SetattrRequest.Mode req AND 64 \<noteq> 0)]\<rparr>)
      | Inr p \<Rightarrow>
          ((case fst (updatePathLocked p (node s)) of
              Inl pan \<Rightarrow> Inl (Inl pan)
            | Inr u \<Rightarrow> Inr (valid AND NOT SetattrMode)),
           s\<lparr>node := snd (updatePathLocked p (node s)), kbfs := b,
             calls := calls s @ [Call_SetEx ctx (getPathLocked (node s))
                 (SetattrRequest.Mode req AND 64 \<noteq> 0)]\<rparr>))"
  using assms
  by (auto simp add: Setattr_mode_def KBFSOps_SetEx_def Let_def split: prod.splits sum.splits)

subsection \<open>How a block of Setattr runs and stops\<close>

lemma Setattr_size_run:
  assumes "v AND SetattrSize \<noteq> 0"
    and "KBFSOps.Truncate ops ctx (getPathLocked (node s)) (SetattrRequest.Size req) (kbfs s) = (e, b)"
  shows "Setattr_size ops ctx req v s =
     ((case e of Some err \<Rightarrow> Inl (Inr (Some err)) | None \<Rightarrow> Inr (v AND NOT SetattrSize)),
      s\<lparr>kbfs := b, calls := calls s @ [Call_Truncate ctx (getPathLocked (node s))
            (SetattrRequest.Size req)]\<rparr>)"
  using assms
  by (auto simp add: Setattr_size_def KBFSOps_Truncate_def Let_def split: option.splits)

lemma Setattr_mtime_run:
  assumes "v AND SetattrMtime \<noteq> 0"
    and "KBFSOps.SetMtime ops ctx (getPathLocked (node s)) (SetattrRequest.Mtime req) (kbfs s) = (r, b)"
  shows "Setattr_mtime ops ctx req v s =
     (case r of
        Inl err \<Rightarrow>
          (Inl (Inr (Some err)),
           s\<lparr>kbfs := b, calls := calls s @ [Call_SetMtime ctx (getPathLocked (node s))
                 (SetattrRequest.Mtime req)]\<rparr>)
      | Inr p \<Rightarrow>
          ((case fst (updatePathLocked p (node s)) of
              Inl pan \<Rightarrow> Inl (Inl pan)
            | Inr u \<Rightarrow> Inr (v AND NOT SetattrMtime)),
           s\<lparr>node := snd (updatePathLocked p (node s)), kbfs := b,
             calls := calls s @ [Call_SetMtime ctx (getPathLocked (node s))
                 (SetattrRequest.Mtime req)]\<rparr>))"
  using assms
  by (auto simp add: Setattr_mtime_def KBFSOps_SetMtime_def Let_def split: prod.splits sum.splits)

lemma Setattr_size_stops:
  assumes "Setattr_size ops ctx req v s = (Inl r, s1)"
  shows "\<exists>err b. KBFSOps.Truncate ops ctx (getPathLocked (node s)) (SetattrRequest.Size req) (kbfs s) =
             (Some err, b) \<and> r = Inr (Some err)"
  using assms
  by (auto simp add: Setattr_size_def KBFSOps_Truncate_def Let_def
      split: prod.splits option.splits if_splits)

lemma Setattr_mode_stops:
  assumes "Setattr_mode ops ctx req v s = (Inl r, s1)"
  shows "(\<exists>err b. KBFSOps.SetEx ops ctx (getPathLocked (node s))
             (SetattrRequest.Mode req AND 64 \<noteq> 0) (kbfs s) = (Inl err, b) \<and> r = Inr (Some err)) \<or>
         (\<exists>p b pan. KBFSOps.SetEx ops ctx (getPathLocked (node s))
             (SetattrRequest.Mode req AND 64 \<noteq> 0) (kbfs s) = (Inr p, b) \<and>
             fst (updatePathLocked p (node s)) = Inl pan \<and> r = Inl pan)"
  using assms
  by (auto simp add: Setattr_mode_def KBFSOps_SetEx_def Let_def
      split: prod.splits sum.splits if_splits)

lemma Setattr_mtime_stops:
  assumes "Setattr_mtime ops ctx req v s = (Inl r, s1)"
  shows "(\<exists>err b. KBFSOps.SetMtime ops ctx (getPathLocked (node s))
             (SetattrRequest.Mtime req) (kbfs s) = (Inl err, b) \<and> r = Inr (Some err)) \<or>
         (\<exists>p b pan. KBFSOps.SetMtime ops ctx (getPathLocked (node s))
             (SetattrRequest.Mtime req) (kbfs s) = (Inr p, b) \<and>
             fst (updatePathLocked p (node s)) = Inl pan \<and> r = Inl pan)"
  using assms
  by (auto simp add: Setattr_mtime_def KBFSOps_SetMtime_def Let_def
      split: prod.splits sum.splits if_splits)

lemma Setattr_stops_in_size:
  "Setattr_size ops ctx req (Valid req) s = (Inl r, s1) \<Longrightarrow> Setattr ops ctx req s = (r, s1)"
  by (simp add: Setattr_def)

lemma Setattr_stops_in_mode:
  "Setattr_size ops ctx req (Valid req) s = (Inr v1, s1) \<Longrightarrow>
   Setattr_mode ops ctx req v1 s1 = (Inl r, s2) \<Longrightarrow> Setattr ops ctx req s = (r, s2)"
  by (simp add: Setattr_def)

lemma Setattr_stops_in_mtime:
  "Setattr_size ops ctx req (Valid req) s = (Inr v1, s1) \<Longrightarrow>
   Setattr_mode ops ctx req v1 s1 = (Inr v2, s2) \<Longrightarrow>
   Setattr_mtime ops ctx req v2 s2 = (Inl r, s3) \<Longrightarrow> Setattr ops ctx req s = (r, s3)"
  by (simp add: Setattr_def)

lemma mode_flag_after_size: "(v AND NOT SetattrSize) AND SetattrMode = v AND SetattrMode"
  by (auto simp add: valid_bits)

lemma Setattr_through_mode:
  assumes m: "Valid req AND SetattrMode \<noteq> 0"
    and sz: "Setattr_size ops ctx req (Valid req) s = (Inr v1, s1)"
    and ex: "KBFSOps.SetEx ops ctx (getPathLocked (node s1))
               (SetattrRequest.Mode req AND 64 \<noteq> 0) (kbfs s1) = (r, b)"
  shows "Setattr ops ctx req s =
     (case r of
        Inl err \<Rightarrow>
          (Inr (Some err),
           s1\<lparr>kbfs := b, calls := calls s1 @ [Call_SetEx ctx (getPathLocked (node s1))
                 (SetattrRequest.Mode req AND 64 \<noteq> 0)]\<rparr>)
      | Inr p \<Rightarrow>
          (case fst (updatePathLocked p (node s1)) of
             Inl pan \<Rightarrow>
               (Inl pan,
                s1\<lparr>node := snd (updatePathLocked p (node s1)), kbfs := b,
                  calls := calls s1 @ [Call_SetEx ctx (getPathLocked (node s1))
                      (SetattrRequest.Mode req AND 64 \<noteq> 0)]\<rparr>)
           | Inr u \<Rightarrow>
               (case Setattr_mtime ops ctx req (v1 AND NOT SetattrMode)
                       (s1\<lparr>node := snd (updatePathLocked p (node s1)), kbfs := b,
                          calls := calls s1 @ [Call_SetEx ctx (getPathLocked (node s1))
                              (SetattrRequest.Mode req AND 64 \<noteq> 0)]\<rparr>) of
                  (Inl r3, s3) \<Rightarrow> (r3, s3)
                | (Inr v3, s3) \<Rightarrow> (Inr (Setattr_rest v3), s3))))"
proof -
  have "v1 = Valid req AND NOT SetattrSize"
    by (rule Setattr_size_valid [OF sz])
  with m have nz: "v1 AND SetattrMode \<noteq> 0"
    by (simp add: mode_flag_after_size)
  show ?thesis
    by (simp add: Setattr_def sz Setattr_mode_run [OF nz ex] split: sum.splits)
qed

subsection \<open>The backend calls that Setattr makes\<close>

lemma Setattr_size_calls:
  "\<exists>cs. calls (snd (Setattr_size ops ctx req v s)) = calls s @ cs \<and>
        (\<forall>c q e. Call_SetEx c q e \<notin> set cs)"
  by (auto simp add: Setattr_size_def KBFSOps_Truncate_def Let_def split: prod.splits option.splits)

lemma Setattr_mtime_calls:
  "\<exists>cs. calls (snd (Setattr_mtime ops ctx req v s)) = calls s @ cs \<and>
        (\<forall>c q e. Call_SetEx c q e \<notin> set cs)"
  by (auto simp add: Setattr_mtime_def KBFSOps_SetMtime_def Let_def split: prod.splits sum.splits)

lemma Setattr_mode_calls:
  "\<exists>cs. calls (snd (Setattr_mode ops ctx req v s)) = calls s @ cs \<and>
        (\<forall>c q e. Call_SetEx c q e \<in> set cs \<longrightarrow> e = (SetattrRequest.Mode req AND 64 \<noteq> 0))"
  by (auto simp add: Setattr_mode_def KBFSOps_SetEx_def Let_def split: prod.splits sum.splits)

lemma Setattr_calls:
  "\<exists>cs. calls (snd (Setattr ops ctx req s)) = calls s @ cs \<and>
        (\<forall>c q e. Call_SetEx c q e \<in> set cs \<longrightarrow> e = (SetattrRequest.Mode req AND 64 \<noteq> 0))"
proof -
  obtain r1 s1 where p1: "Setattr_size ops ctx req (Valid req) s = (r1, s1)"
    by (cases "Setattr_size ops ctx req (Valid req) s")
  obtain cs1 where c1: "calls s1 = calls s @ cs1" "\<forall>c q e. Call_SetEx c q e \<notin> set cs1"
    using Setattr_size_calls [of ops ctx req "Valid req" s] p1 by auto
  show ?thesis
  proof (cases r1)
    case (Inl r)
    with p1 c1 show ?thesis by (auto simp add: Setattr_def)
  next
    case v1: (Inr v1)
    obtain r2 s2 where p2: "Setattr_mode ops ctx req v1 s1 = (r2, s2)"
      by (cases "Setattr_mode ops ctx req v1 s1")
    obtain cs2 where c2: "calls s2 = calls s1 @ cs2"
      "\<forall>c q e. Call_SetEx c q e \<in> set cs2 \<longrightarrow> e = (SetattrRequest.Mode req AND 64 \<noteq> 0)"
      using Setattr_mode_calls [of ops ctx req v1 s1] p2 by auto
    show ?thesis
    proof (cases r2)
      case (Inl r)
      with p1 v1 p2 c1 c2 show ?thesis by (auto simp add: Setattr_def)
    next
      case v2: (Inr v2)
      obtain r3 s3 where p3: "Setattr_mtime ops ctx req v2 s2 = (r3, s3)"
        by (cases "Setattr_mtime ops ctx req v2 s2")
      obtain cs3 where c3: "calls s3 = calls s2 @ cs3" "\<forall>c q e. Call_SetEx c q e \<notin> set cs3"
        using Setattr_mtime_calls [of ops ctx req v2 s2] p3 by auto
      have "snd (Setattr ops ctx req s) = s3"
        using p1 v1 p2 v2 p3 by (cases r3) (simp_all add: Setattr_def)
      with c1 c2 c3 show ?thesis by auto
    qed
  qed
qed

lemma Setattr_SetEx_flag:
  assumes "Call_SetEx c q e \<in> set (drop (length (calls s)) (calls (snd (Setattr ops ctx req s))))"
  shows "e = (SetattrRequest.Mode req AND 64 \<noteq> 0)"
proof -
  obtain cs where cs: "calls (snd (Setattr ops ctx req s)) = calls s @ cs"
    and fl: "\<forall>c q e. Call_SetEx c q e \<in> set cs \<longrightarrow> e = (SetattrRequest.Mode req AND 64 \<noteq> 0)"
    using Setattr_calls [of ops ctx req s] by blast
  from assms cs have "Call_SetEx c q e \<in> set cs"
    by simp
  with fl show ?thesis by blast
qed

subsection \<open>The modes that Attr reports\<close>

lemma Attr_mode_bits:
  assumes "Attr ops ctx a s = (None, a', s')"
  shows "Attr.Mode a' AND NOT 73 = 420 \<and> (Attr.Mode a' AND 73 = 0 \<or> Attr.Mode a' AND 73 = 73)"
  using assms
  by (auto simp add: Attr_def Let_def fillAttr_def split: prod.splits sum.splits if_splits)

section \<open>Path propagation: the claims\<close>

text \<open>
  C1. For every file node and every Path \<open>p\<close> that has a last element: if the name of the
  last element differs from the name the node remembers, \<^verbatim>\<open>updatePathLocked\<close> returns
  normally and leaves the node and its whole chain of parents as they were; otherwise the
  node's PathNode becomes the last element of \<open>p\<close>, and the parent's routine is run on \<open>p\<close>
  without its last element, its outcome being the outcome of the call.
\<close>

theorem updatePathLocked_spec:
  assumes "Path p \<noteq> []"
  shows "updatePathLocked p f =
     (if Name (pathNode f) \<noteq> Name (last (Path p)) then (Inr (), f)
      else (let (r, d') = Dir_updatePathLocked (p\<lparr>Path := butlast (Path p)\<rparr>) (parent f)
            in (r, f\<lparr>pathNode := last (Path p), parent := d'\<rparr>)))"
  using assms
  by (simp add: updatePathLocked_def index_last slice_to_butlast Let_def split: prod.splits)

theorem updatePathLocked_spec_witness:
  "Path new_path \<noteq> [] \<and>
   updatePathLocked new_path demo_file =
     (Inr (), \<lparr>parent = Dir None \<lparr>BlockPointer = 11, Name = ''jdoe''\<rparr>,
               pathNode = \<lparr>BlockPointer = 12, Name = ''myfile''\<rparr>\<rparr>) \<and>
   Path stale_path \<noteq> [] \<and>
   updatePathLocked stale_path demo_file = (Inr (), demo_file)"
  using updatePathLocked_spec [of new_path demo_file] updatePathLocked_spec [of stale_path demo_file]
  by (simp add: new_path_def stale_path_def demo_file_def index_def)

text \<open>
  C9. \<^verbatim>\<open>updatePathLocked\<close> needs a Path with at least one element. With one, the read of
  the trailing element and the reslice that strips it are both in bounds, so the routine
  itself does not panic: it returns normally on a name mismatch and otherwise ends as the
  parent's routine ends. With an empty Path the read of the trailing element is out of
  range and the call panics before it changes anything.
\<close>

theorem updatePathLocked_bounds:
  "(Path p \<noteq> [] \<longrightarrow>
      index (Path p) (int (length (Path p)) - 1) = Inr (last (Path p)) \<and>
      slice_to (Path p) (int (length (Path p)) - 1) = Inr (butlast (Path p)) \<and>
      fst (updatePathLocked p f) =
        (if Name (pathNode f) \<noteq> Name (last (Path p)) then Inr ()
         else fst (Dir_updatePathLocked (p\<lparr>Path := butlast (Path p)\<rparr>) (parent f)))) \<and>
   (Path p = [] \<longrightarrow>
      index (Path p) (int (length (Path p)) - 1) = Inl IndexOutOfRange \<and>
      updatePathLocked p f = (Inl IndexOutOfRange, f))"
proof (intro conjI impI)
  assume ne: "Path p \<noteq> []"
  show "index (Path p) (int (length (Path p)) - 1) = Inr (last (Path p))"
    using ne by (rule index_last)
  show "slice_to (Path p) (int (length (Path p)) - 1) = Inr (butlast (Path p))"
    using ne by (rule slice_to_butlast)
  show "fst (updatePathLocked p f) =
        (if Name (pathNode f) \<noteq> Name (last (Path p)) then Inr ()
         else fst (Dir_updatePathLocked (p\<lparr>Path := butlast (Path p)\<rparr>) (parent f)))"
    using ne
    by (simp add: updatePathLocked_def index_last slice_to_butlast Let_def split: prod.splits)
next
  assume e: "Path p = []"
  then show "index (Path p) (int (length (Path p)) - 1) = Inl IndexOutOfRange"
    by (simp add: index_empty)
  from e show "updatePathLocked p f = (Inl IndexOutOfRange, f)"
    by (simp add: updatePathLocked_def index_empty)
qed

theorem updatePathLocked_bounds_witness:
  "Path new_path \<noteq> [] \<and>
   index (Path new_path) 1 = Inr \<lparr>BlockPointer = 12, Name = ''myfile''\<rparr> \<and>
   slice_to (Path new_path) 1 = Inr [\<lparr>BlockPointer = 11, Name = ''jdoe''\<rparr>] \<and>
   fst (updatePathLocked new_path demo_file) = Inr () \<and>
   Path \<lparr>Path = []\<rparr> = [] \<and>
   updatePathLocked \<lparr>Path = []\<rparr> demo_file = (Inl IndexOutOfRange, demo_file)"
  using updatePathLocked_bounds [of new_path demo_file]
    updatePathLocked_bounds [of "\<lparr>Path = []\<rparr>" demo_file]
  by (simp add: new_path_def demo_file_def index_def)

section \<open>Attr: the claim\<close>

text \<open>
  C2. Whenever \<^verbatim>\<open>Attr\<close> returns without error, the backend's stat of the node's Path gave
  a descriptor, and the record returned has mode \<open>0644\<close> (420), or \<open>0755\<close> (493) when the
  descriptor's type is \<^verbatim>\<open>Exec\<close>: outside the three execute bits (\<open>0111\<close>, 73) the mode is
  always \<open>0644\<close>, and the three execute bits are all set when the type is \<^verbatim>\<open>Exec\<close> and all
  clear otherwise. Size and the two timestamps are those of the descriptor; the fields
  that the code does not name keep the values they came with.
\<close>

theorem Attr_metadata:
  assumes "Attr ops ctx a s = (None, a', s')"
  shows "\<exists>de b. KBFSOps.Stat ops ctx (getPathLocked (node s)) (kbfs s) = (Inr de, b) \<and>
           Attr.Mode a' = (if Type de = Exec then 493 else 420) \<and>
           Attr.Mode a' AND NOT 73 = 420 \<and>
           Attr.Mode a' AND 73 = (if Type de = Exec then 73 else 0) \<and>
           Attr.Size a' = DirEntry.Size de \<and>
           Attr.Mtime a' = DirEntry.Mtime de \<and>
           Attr.Ctime a' = DirEntry.Ctime de \<and>
           Attr.Atime a' = Attr.Atime a \<and> Attr.Nlink a' = Attr.Nlink a"
proof -
  obtain r b where st: "KBFSOps.Stat ops ctx (getPathLocked (node s)) (kbfs s) = (r, b)"
    by (cases "KBFSOps.Stat ops ctx (getPathLocked (node s)) (kbfs s)")
  show ?thesis
  proof (cases r)
    case (Inl err)
    with st assms show ?thesis
      by (simp add: Attr_def statPath_def KBFSOps_Stat_def Let_def)
  next
    case (Inr de)
    with st assms have "a' = (if Type de = Exec then (fillAttr de a)\<lparr>Attr.Mode := 420 OR 73\<rparr>
                              else (fillAttr de a)\<lparr>Attr.Mode := 420\<rparr>)"
      by (auto simp add: Attr_def statPath_def KBFSOps_Stat_def Let_def)
    with st Inr show ?thesis
      by (auto simp add: fillAttr_def)
  qed
qed

theorem Attr_metadata_witness:
  "Attr demo_ops 0 demo_attr demo_state =
     (None,
      \<lparr>Attr.Size = 13, Attr.Atime = 0, Attr.Mtime = 100, Attr.Ctime = 200, Attr.Mode = 493,
        Attr.Nlink = 1\<rparr>,
      demo_state\<lparr>calls := [Call_Stat 0 demo_path]\<rparr>) \<and>
   (\<exists>de b. KBFSOps.Stat demo_ops 0 (getPathLocked (node demo_state)) (kbfs demo_state) = (Inr de, b) \<and>
      Type de = Exec \<and> DirEntry.Size de = 13 \<and> DirEntry.Mtime de = 100 \<and> DirEntry.Ctime de = 200)"
proof -
  have h: "Attr demo_ops 0 demo_attr demo_state =
     (None,
      \<lparr>Attr.Size = 13, Attr.Atime = 0, Attr.Mtime = 100, Attr.Ctime = 200, Attr.Mode = 493,
        Attr.Nlink = 1\<rparr>,
      demo_state\<lparr>calls := [Call_Stat 0 demo_path]\<rparr>)"
    by (simp add: Attr_def statPath_def KBFSOps_Stat_def demo_ops_def demo_attr_def demo_state_def
        demo_file_def demo_path_def getPathLocked_def fillAttr_def)
  show ?thesis
    using h Attr_metadata [OF h] by (auto split: if_splits)
qed

section \<open>Write and Read: the claims\<close>

text \<open>
  C4. \<^verbatim>\<open>Write\<close> makes one backend write, of the request's data at the request's offset on
  the node's Path. If the backend returns no error, the call returns no error and the
  response's size is the length of the request's data. If the backend returns an error, the
  call returns that error and the response is the one it was given, untouched: no size,
  partial or other, is reported.
\<close>

theorem Write_reports:
  "(KBFSOps.Write ops ctx (getPathLocked (node s)) (WriteRequest.Data req)
        (WriteRequest.Offset req) (kbfs s) = (None, b) \<longrightarrow>
      Write ops ctx req resp s =
        (None, resp\<lparr>WriteResponse.Size := int (length (WriteRequest.Data req))\<rparr>,
         s\<lparr>kbfs := b, calls := calls s @ [Call_Write ctx (getPathLocked (node s))
               (WriteRequest.Data req) (WriteRequest.Offset req)]\<rparr>)) \<and>
   (KBFSOps.Write ops ctx (getPathLocked (node s)) (WriteRequest.Data req)
        (WriteRequest.Offset req) (kbfs s) = (Some err, b) \<longrightarrow>
      Write ops ctx req resp s =
        (Some err, resp,
         s\<lparr>kbfs := b, calls := calls s @ [Call_Write ctx (getPathLocked (node s))
               (WriteRequest.Data req) (WriteRequest.Offset req)]\<rparr>))"
  by (simp add: Write_def KBFSOps_Write_def Let_def)

theorem Write_reports_witness:
  "KBFSOps.Write demo_ops 0 (getPathLocked (node demo_state)) (WriteRequest.Data write_req)
      (WriteRequest.Offset write_req) (kbfs demo_state) = (None, 8) \<and>
   Write demo_ops 0 write_req \<lparr>WriteResponse.Size = 0\<rparr> demo_state =
     (None, \<lparr>WriteResponse.Size = 3\<rparr>,
      demo_state\<lparr>kbfs := 8, calls := [Call_Write 0 demo_path [104, 105, 10] 0]\<rparr>) \<and>
   KBFSOps.Write failing_ops 0 (getPathLocked (node demo_state)) (WriteRequest.Data write_req)
      (WriteRequest.Offset write_req) (kbfs demo_state) = (Some (OtherError 5), 7) \<and>
   Write failing_ops 0 write_req \<lparr>WriteResponse.Size = 0\<rparr> demo_state =
     (Some (OtherError 5), \<lparr>WriteResponse.Size = 0\<rparr>,
      demo_state\<lparr>calls := [Call_Write 0 demo_path [104, 105, 10] 0]\<rparr>)"
  using Write_reports [where ops = demo_ops and ctx = 0 and s = demo_state and req = write_req
        and b = 8 and resp = "\<lparr>WriteResponse.Size = 0\<rparr>"]
    Write_reports [where ops = failing_ops and ctx = 0 and s = demo_state and req = write_req
        and b = 7 and resp = "\<lparr>WriteResponse.Size = 0\<rparr>" and err = "OtherError 5"]
  by (simp add: demo_ops_def failing_ops_def write_req_def demo_state_def demo_file_def
      demo_path_def getPathLocked_def)

text \<open>
  C5. \<^verbatim>\<open>Read\<close> hands the whole buffer of the response to the backend. When the backend
  supplies a count \<open>n\<close> that lies within the buffer, the call returns exactly the
  backend's error value (none, if the backend gave none, however small \<open>n\<close> is, zero
  included), and the response data is the first \<open>n\<close> bytes of the buffer as the backend
  left it. (A count outside the buffer makes the reslice panic; the model has that branch.)
\<close>

theorem Read_count:
  assumes "KBFSOps.Read ops ctx (getPathLocked (node s)) (array (ReadResponse.Data resp))
             (ReadRequest.Offset req) (kbfs s) = ((bs, n, err), b)"
    and "0 \<le> n" and "n \<le> int (cap (ReadResponse.Data resp))"
  shows "\<exists>resp' s'. Read ops ctx req resp s = (Inr err, resp', s') \<and>
           bytes (ReadResponse.Data resp') =
             take (nat n) (store (array (ReadResponse.Data resp)) bs) \<and>
           length (bytes (ReadResponse.Data resp')) = nat n"
  using assms
  by (simp add: Read_def KBFSOps_Read_def Let_def reslice_to_def cap_def bytes_def length_store)

theorem Read_count_witness:
  "KBFSOps.Read demo_ops 0 (getPathLocked (node demo_state)) (array (ReadResponse.Data read_resp))
      0 (kbfs demo_state) = (([104, 105], 2, None), 7) \<and>
   (0::int) \<le> 2 \<and> 2 \<le> int (cap (ReadResponse.Data read_resp)) \<and>
   (\<exists>resp' s'. Read demo_ops 0 \<lparr>ReadRequest.Offset = 0\<rparr> read_resp demo_state = (Inr None, resp', s') \<and>
      bytes (ReadResponse.Data resp') = [104, 105])"
proof -
  have h: "KBFSOps.Read demo_ops 0 (getPathLocked (node demo_state))
      (array (ReadResponse.Data read_resp)) (ReadRequest.Offset \<lparr>ReadRequest.Offset = 0\<rparr>)
      (kbfs demo_state) = (([104, 105], 2, None), 7)"
    by (simp add: demo_ops_def demo_state_def)
  have c: "2 \<le> int (cap (ReadResponse.Data read_resp))"
    by (simp add: read_resp_def cap_def)
  have t: "take 2 (store (array (ReadResponse.Data read_resp)) [104, 105]) = [104, 105]"
    by (simp add: read_resp_def store_def)
  show ?thesis
    using h c Read_count [OF h _ c] by (auto simp add: t)
qed

section \<open>Fsync and Flush: the claim\<close>

text \<open>
  C6. On every node and with every context, \<^verbatim>\<open>Fsync\<close> and \<^verbatim>\<open>Flush\<close> do the same thing,
  whatever their request records hold: both are \<^verbatim>\<open>sync\<close>. That operation makes one
  backend Sync call on the node's reconstructed Path. If the backend returns an error, the
  error is returned and the node is as before. If the backend returns a Path, path
  propagation is run on it, the node is what propagation leaves, and the call returns no
  error unless propagation panics.
\<close>

theorem Fsync_Flush_same:
  "Fsync ops ctx req1 s = Flush ops ctx req2 s \<and>
   Fsync ops ctx req1 s = sync ops ctx s \<and>
   (KBFSOps.Sync ops ctx (getPathLocked (node s)) (kbfs s) = (Inl err, b) \<longrightarrow>
      sync ops ctx s =
        (Inr (Some err), s\<lparr>kbfs := b, calls := calls s @ [Call_Sync ctx (getPathLocked (node s))]\<rparr>)) \<and>
   (KBFSOps.Sync ops ctx (getPathLocked (node s)) (kbfs s) = (Inr p, b) \<longrightarrow>
      sync ops ctx s =
        ((case fst (updatePathLocked p (node s)) of Inl pan \<Rightarrow> Inl pan | Inr u \<Rightarrow> Inr None),
         s\<lparr>node := snd (updatePathLocked p (node s)), kbfs := b,
           calls := calls s @ [Call_Sync ctx (getPathLocked (node s))]\<rparr>))"
  by (auto simp add: Fsync_def Flush_def sync_def KBFSOps_Sync_def Let_def
      split: prod.splits sum.splits)

theorem Fsync_Flush_same_witness:
  "KBFSOps.Sync failing_ops 0 (getPathLocked (node demo_state)) (kbfs demo_state) =
     (Inl (OtherError 5), 7) \<and>
   Fsync failing_ops 0 () demo_state =
     (Inr (Some (OtherError 5)), demo_state\<lparr>calls := [Call_Sync 0 demo_path]\<rparr>) \<and>
   KBFSOps.Sync demo_ops 0 (getPathLocked (node demo_state)) (kbfs demo_state) =
     (Inr (versioned 8 demo_path), 8) \<and>
   Flush demo_ops 0 () demo_state =
     (Inr None,
      \<lparr>node = \<lparr>parent = Dir None \<lparr>BlockPointer = 8, Name = ''jdoe''\<rparr>,
                pathNode = \<lparr>BlockPointer = 8, Name = ''myfile''\<rparr>\<rparr>,
        kbfs = 8, calls = [Call_Sync 0 demo_path]\<rparr>)"
proof -
  note failing = Fsync_Flush_same [where ops = failing_ops and ctx = 0 and s = demo_state
        and ?req1.0 = "()" and ?req2.0 = "()" and err = "OtherError 5" and b = 7]
  note working = Fsync_Flush_same [where ops = demo_ops and ctx = 0 and s = demo_state
        and ?req1.0 = "()" and ?req2.0 = "()" and p = "versioned 8 demo_path" and b = 8]
  have h1: "KBFSOps.Sync failing_ops 0 (getPathLocked (node demo_state)) (kbfs demo_state) =
     (Inl (OtherError 5), 7)"
    by (simp add: failing_ops_def demo_state_def)
  have h2: "KBFSOps.Sync demo_ops 0 (getPathLocked (node demo_state)) (kbfs demo_state) =
     (Inr (versioned 8 demo_path), 8)"
    by (simp add: demo_ops_def demo_state_def demo_file_def demo_path_def getPathLocked_def)
  have g: "getPathLocked (node demo_state) = demo_path"
    by (simp add: demo_state_def demo_file_def demo_path_def getPathLocked_def)
  have u: "updatePathLocked (versioned 8 demo_path) (node demo_state) =
     (Inr (), \<lparr>parent = Dir None \<lparr>BlockPointer = 8, Name = ''jdoe''\<rparr>,
               pathNode = \<lparr>BlockPointer = 8, Name = ''myfile''\<rparr>\<rparr>)"
    by (simp add: demo_state_def demo_file_def demo_path_def versioned_def updatePathLocked_def
        index_def slice_to_def)
  from failing h1 have "Fsync failing_ops 0 () demo_state =
     (Inr (Some (OtherError 5)),
      demo_state\<lparr>kbfs := 7, calls := calls demo_state @ [Call_Sync 0 (getPathLocked (node demo_state))]\<rparr>)"
    by metis
  then have r1: "Fsync failing_ops 0 () demo_state =
     (Inr (Some (OtherError 5)), demo_state\<lparr>calls := [Call_Sync 0 demo_path]\<rparr>)"
    by (simp add: g) (simp add: demo_state_def)
  from working h2 have "Flush demo_ops 0 () demo_state =
     ((case fst (updatePathLocked (versioned 8 demo_path) (node demo_state)) of
         Inl pan \<Rightarrow> Inl pan | Inr u \<Rightarrow> Inr None),
      demo_state\<lparr>node := snd (updatePathLocked (versioned 8 demo_path) (node demo_state)),
        kbfs := 8, calls := calls demo_state @ [Call_Sync 0 (getPathLocked (node demo_state))]\<rparr>)"
    by metis
  then have r2: "Flush demo_ops 0 () demo_state =
     (Inr None,
      \<lparr>node = \<lparr>parent = Dir None \<lparr>BlockPointer = 8, Name = ''jdoe''\<rparr>,
                pathNode = \<lparr>BlockPointer = 8, Name = ''myfile''\<rparr>\<rparr>,
        kbfs = 8, calls = [Call_Sync 0 demo_path]\<rparr>)"
    by (simp add: g u) (simp add: demo_state_def)
  from h1 h2 r1 r2 show ?thesis by simp
qed

section \<open>Operations that do not propagate a path: the claim\<close>

text \<open>
  C10. \<^verbatim>\<open>Write\<close> and the size block of \<^verbatim>\<open>Setattr\<close> leave the file node, that is its own
  PathNode and the PathNode of every ancestor, exactly as it was, whether the backend call
  succeeds or fails. So does a whole \<^verbatim>\<open>Setattr\<close> call that requests neither a mode nor a
  modification time, and so do \<^verbatim>\<open>Read\<close> and \<^verbatim>\<open>Attr\<close>: the node changes only through the
  paths returned by SetEx, SetMtime and Sync.
\<close>

theorem Write_Truncate_keep_node:
  "node (snd (snd (Write ops ctx req resp s))) = node s \<and>
   node (snd (Setattr_size ops ctx sreq valid s)) = node s \<and>
   (Valid sreq AND SetattrMode = 0 \<and> Valid sreq AND SetattrMtime = 0 \<longrightarrow>
      node (snd (Setattr ops ctx sreq s)) = node s) \<and>
   node (snd (snd (Read ops ctx rreq rresp s))) = node s \<and>
   node (snd (snd (Attr ops ctx a s))) = node s"
proof (intro conjI impI)
  show "node (snd (snd (Write ops ctx req resp s))) = node s"
    by (auto simp add: Write_def Let_def split: prod.splits option.splits dest: node_KBFSOps(3))
next
  show "node (snd (Setattr_size ops ctx sreq valid s)) = node s"
    by (rule Setattr_size_node)
next
  assume a: "Valid sreq AND SetattrMode = 0 \<and> Valid sreq AND SetattrMtime = 0"
  obtain r s1 where sz: "Setattr_size ops ctx sreq (Valid sreq) s = (r, s1)"
    by (cases "Setattr_size ops ctx sreq (Valid sreq) s")
  have n1: "node s1 = node s"
    using Setattr_size_node [of ops ctx sreq "Valid sreq" s] sz by simp
  show "node (snd (Setattr ops ctx sreq s)) = node s"
  proof (cases r)
    case (Inl x)
    with sz n1 show ?thesis by (simp add: Setattr_def)
  next
    case (Inr v)
    with sz have v: "v = Valid sreq AND NOT SetattrSize"
      by (simp add: Setattr_size_valid)
    from a have "v AND SetattrMode = 0" "v AND SetattrMtime = 0"
      unfolding v by (auto simp add: valid_bits)
    with sz Inr n1 show ?thesis
      by (simp add: Setattr_def Setattr_mode_skip Setattr_mtime_skip)
  qed
next
  show "node (snd (snd (Read ops ctx rreq rresp s))) = node s"
    by (auto simp add: Read_def Let_def split: prod.splits sum.splits dest: node_KBFSOps(2))
next
  show "node (snd (snd (Attr ops ctx a s))) = node s"
    by (auto simp add: Attr_def statPath_def Let_def split: prod.splits sum.splits
        dest: node_KBFSOps(1))
qed

theorem Write_Truncate_keep_node_witness:
  "Valid size_req AND SetattrMode = 0 \<and> Valid size_req AND SetattrMtime = 0 \<and>
   Setattr demo_ops 0 size_req demo_state =
     (Inr None, demo_state\<lparr>kbfs := 8, calls := [Call_Truncate 0 demo_path 4]\<rparr>) \<and>
   node (snd (Setattr demo_ops 0 size_req demo_state)) = demo_file \<and>
   node (snd (Setattr failing_ops 0 size_req demo_state)) = demo_file \<and>
   node (snd (snd (Write demo_ops 0 write_req \<lparr>WriteResponse.Size = 0\<rparr> demo_state))) = demo_file"
proof -
  have h: "Valid size_req AND SetattrMode = 0 \<and> Valid size_req AND SetattrMtime = 0"
    by (simp add: size_req_def Setattr_flags)
  have e: "Setattr demo_ops 0 size_req demo_state =
     (Inr None, demo_state\<lparr>kbfs := 8, calls := [Call_Truncate 0 demo_path 4]\<rparr>)"
    by (simp add: Setattr_def Setattr_size_def Setattr_mode_def Setattr_mtime_def Setattr_rest_def
        KBFSOps_Truncate_def size_req_def demo_ops_def demo_state_def demo_file_def demo_path_def
        getPathLocked_def Setattr_flags)
  have n: "node demo_state = demo_file"
    by (simp add: demo_state_def)
  show ?thesis
    using h e n
      Write_Truncate_keep_node [where ops = demo_ops and ctx = 0 and sreq = size_req
        and s = demo_state and req = write_req and resp = "\<lparr>WriteResponse.Size = 0\<rparr>"]
      Write_Truncate_keep_node [where ops = failing_ops and ctx = 0 and sreq = size_req
        and s = demo_state]
    by simp
qed

section \<open>Setattr: the claims\<close>

text \<open>
  C7, as stated: every \<^verbatim>\<open>Setattr\<close> call that requests a mode change calls the backend's
  SetEx. It does not always: the size block runs first, and when its Truncate fails the
  call returns that error at once. With a request for the size and the mode \<open>0755\<close>, and
  a backend whose Truncate fails, the only backend call is the Truncate: SetEx is never
  called, although bit \<open>0100\<close> of the requested mode is set.
\<close>

theorem Setattr_mode_skipped_counterexample:
  "Valid size_mode_req AND SetattrMode \<noteq> 0 \<and>
   SetattrRequest.Mode size_mode_req AND 64 \<noteq> 0 \<and>
   Setattr failing_ops 0 size_mode_req demo_state =
     (Inr (Some (OtherError 5)), demo_state\<lparr>calls := [Call_Truncate 0 demo_path 0]\<rparr>) \<and>
   Call_SetEx 0 demo_path True \<notin> set (calls (snd (Setattr failing_ops 0 size_mode_req demo_state)))"
  by (simp add: size_mode_req_def failing_ops_def demo_state_def demo_file_def demo_path_def
      getPathLocked_def Setattr_def Setattr_size_def KBFSOps_Truncate_def Setattr_flags)

text \<open>
  C7, amended. Every \<^verbatim>\<open>Setattr\<close> call that requests a mode change and whose size block
  completes (no size is requested, or the backend's Truncate succeeds) calls SetEx on the
  node's Path as it then is, with the flag \<open>true\<close> exactly when bit \<open>0100\<close> (64) of the
  requested mode is set: a backend error is returned by the call, a returned Path goes
  through path propagation, and the call goes on with the modification-time block and
  the check of the remaining flags. For a request of the mode alone, the whole call is the
  mode block. In every call of \<^verbatim>\<open>Setattr\<close>, each SetEx call made carries that flag, and
  two requested modes that agree on bit \<open>0100\<close> give the same call in every respect, so no
  other requested permission bit has any effect. And every mode that \<^verbatim>\<open>Attr\<close> reports has
  the three execute bits all set or all clear, and is \<open>0644\<close> outside them.
\<close>

theorem Setattr_mode_exec_bit:
  "(Valid req AND SetattrMode \<noteq> 0 \<and>
    Setattr_size ops ctx req (Valid req) s = (Inr v1, s1) \<and>
    KBFSOps.SetEx ops ctx (getPathLocked (node s1)) (SetattrRequest.Mode req AND 64 \<noteq> 0) (kbfs s1) = (rx, bx) \<longrightarrow>
      Setattr ops ctx req s =
        (case rx of
           Inl err \<Rightarrow>
             (Inr (Some err),
              s1\<lparr>kbfs := bx, calls := calls s1 @ [Call_SetEx ctx (getPathLocked (node s1))
                    (SetattrRequest.Mode req AND 64 \<noteq> 0)]\<rparr>)
         | Inr p \<Rightarrow>
             (case fst (updatePathLocked p (node s1)) of
                Inl pan \<Rightarrow>
                  (Inl pan,
                   s1\<lparr>node := snd (updatePathLocked p (node s1)), kbfs := bx,
                     calls := calls s1 @ [Call_SetEx ctx (getPathLocked (node s1))
                         (SetattrRequest.Mode req AND 64 \<noteq> 0)]\<rparr>)
              | Inr u \<Rightarrow>
                  (case Setattr_mtime ops ctx req (v1 AND NOT SetattrMode)
                          (s1\<lparr>node := snd (updatePathLocked p (node s1)), kbfs := bx,
                             calls := calls s1 @ [Call_SetEx ctx (getPathLocked (node s1))
                                 (SetattrRequest.Mode req AND 64 \<noteq> 0)]\<rparr>) of
                     (Inl r3, s3) \<Rightarrow> (r3, s3)
                   | (Inr v3, s3) \<Rightarrow> (Inr (Setattr_rest v3), s3))))) \<and>
   (Valid req AND SetattrSize = 0 \<longrightarrow>
      Setattr_size ops ctx req (Valid req) s = (Inr (Valid req), s)) \<and>
   (Valid req AND SetattrSize \<noteq> 0 \<and>
    KBFSOps.Truncate ops ctx (getPathLocked (node s)) (SetattrRequest.Size req) (kbfs s) = (None, b0) \<longrightarrow>
      Setattr_size ops ctx req (Valid req) s =
        (Inr (Valid req AND NOT SetattrSize),
         s\<lparr>kbfs := b0, calls := calls s @ [Call_Truncate ctx (getPathLocked (node s))
               (SetattrRequest.Size req)]\<rparr>)) \<and>
   (valid AND SetattrMode \<noteq> 0 \<and>
    KBFSOps.SetEx ops ctx (getPathLocked (node s)) (SetattrRequest.Mode req AND 64 \<noteq> 0) (kbfs s) = (r, b) \<longrightarrow>
      Setattr_mode ops ctx req valid s =
        (case r of
           Inl err \<Rightarrow>
             (Inl (Inr (Some err)),
              s\<lparr>kbfs := b, calls := calls s @ [Call_SetEx ctx (getPathLocked (node s))
                    (SetattrRequest.Mode req AND 64 \<noteq> 0)]\<rparr>)
         | Inr p \<Rightarrow>
             ((case fst (updatePathLocked p (node s)) of
                 Inl pan \<Rightarrow> Inl (Inl pan)
               | Inr u \<Rightarrow> Inr (valid AND NOT SetattrMode)),
              s\<lparr>node := snd (updatePathLocked p (node s)), kbfs := b,
                calls := calls s @ [Call_SetEx ctx (getPathLocked (node s))
                    (SetattrRequest.Mode req AND 64 \<noteq> 0)]\<rparr>))) \<and>
   (Valid req = SetattrMode \<and>
    KBFSOps.SetEx ops ctx (getPathLocked (node s)) (SetattrRequest.Mode req AND 64 \<noteq> 0) (kbfs s) = (Inr p, b) \<longrightarrow>
      Setattr ops ctx req s =
        ((case fst (updatePathLocked p (node s)) of Inl pan \<Rightarrow> Inl pan | Inr u \<Rightarrow> Inr None),
         s\<lparr>node := snd (updatePathLocked p (node s)), kbfs := b,
           calls := calls s @ [Call_SetEx ctx (getPathLocked (node s))
               (SetattrRequest.Mode req AND 64 \<noteq> 0)]\<rparr>)) \<and>
   (Call_SetEx c q e \<in> set (drop (length (calls s)) (calls (snd (Setattr ops ctx req s)))) \<longrightarrow>
      e = (SetattrRequest.Mode req AND 64 \<noteq> 0)) \<and>
   (m AND 64 = m' AND 64 \<longrightarrow>
      Setattr ops ctx (req\<lparr>SetattrRequest.Mode := m\<rparr>) s =
      Setattr ops ctx (req\<lparr>SetattrRequest.Mode := m'\<rparr>) s) \<and>
   (Attr ops ctx a s0 = (None, a', s0') \<longrightarrow>
      Attr.Mode a' AND NOT 73 = 420 \<and> (Attr.Mode a' AND 73 = 0 \<or> Attr.Mode a' AND 73 = 73))"
proof (intro conjI impI)
  assume "Valid req AND SetattrMode \<noteq> 0 \<and>
    Setattr_size ops ctx req (Valid req) s = (Inr v1, s1) \<and>
    KBFSOps.SetEx ops ctx (getPathLocked (node s1)) (SetattrRequest.Mode req AND 64 \<noteq> 0) (kbfs s1) = (rx, bx)"
  then show "Setattr ops ctx req s =
        (case rx of
           Inl err \<Rightarrow>
             (Inr (Some err),
              s1\<lparr>kbfs := bx, calls := calls s1 @ [Call_SetEx ctx (getPathLocked (node s1))
                    (SetattrRequest.Mode req AND 64 \<noteq> 0)]\<rparr>)
         | Inr p \<Rightarrow>
             (case fst (updatePathLocked p (node s1)) of
                Inl pan \<Rightarrow>
                  (Inl pan,
                   s1\<lparr>node := snd (updatePathLocked p (node s1)), kbfs := bx,
                     calls := calls s1 @ [Call_SetEx ctx (getPathLocked (node s1))
                         (SetattrRequest.Mode req AND 64 \<noteq> 0)]\<rparr>)
              | Inr u \<Rightarrow>
                  (case Setattr_mtime ops ctx req (v1 AND NOT SetattrMode)
                          (s1\<lparr>node := snd (updatePathLocked p (node s1)), kbfs := bx,
                             calls := calls s1 @ [Call_SetEx ctx (getPathLocked (node s1))
                                 (SetattrRequest.Mode req AND 64 \<noteq> 0)]\<rparr>) of
                     (Inl r3, s3) \<Rightarrow> (r3, s3)
                   | (Inr v3, s3) \<Rightarrow> (Inr (Setattr_rest v3), s3))))"
    by (simp add: Setattr_through_mode [of req ops ctx s v1 s1 rx bx])
next
  assume "Valid req AND SetattrSize = 0"
  then show "Setattr_size ops ctx req (Valid req) s = (Inr (Valid req), s)"
    by (rule Setattr_size_skip)
next
  assume "Valid req AND SetattrSize \<noteq> 0 \<and>
    KBFSOps.Truncate ops ctx (getPathLocked (node s)) (SetattrRequest.Size req) (kbfs s) = (None, b0)"
  then show "Setattr_size ops ctx req (Valid req) s =
        (Inr (Valid req AND NOT SetattrSize),
         s\<lparr>kbfs := b0, calls := calls s @ [Call_Truncate ctx (getPathLocked (node s))
               (SetattrRequest.Size req)]\<rparr>)"
    by (simp add: Setattr_size_run [of "Valid req" ops ctx s req None b0])
next
  assume "valid AND SetattrMode \<noteq> 0 \<and>
    KBFSOps.SetEx ops ctx (getPathLocked (node s)) (SetattrRequest.Mode req AND 64 \<noteq> 0) (kbfs s) = (r, b)"
  then show "Setattr_mode ops ctx req valid s =
        (case r of
           Inl err \<Rightarrow>
             (Inl (Inr (Some err)),
              s\<lparr>kbfs := b, calls := calls s @ [Call_SetEx ctx (getPathLocked (node s))
                    (SetattrRequest.Mode req AND 64 \<noteq> 0)]\<rparr>)
         | Inr p \<Rightarrow>
             ((case fst (updatePathLocked p (node s)) of
                 Inl pan \<Rightarrow> Inl (Inl pan)
               | Inr u \<Rightarrow> Inr (valid AND NOT SetattrMode)),
              s\<lparr>node := snd (updatePathLocked p (node s)), kbfs := b,
                calls := calls s @ [Call_SetEx ctx (getPathLocked (node s))
                    (SetattrRequest.Mode req AND 64 \<noteq> 0)]\<rparr>))"
    by (simp add: Setattr_mode_run)
next
  assume a: "Valid req = SetattrMode \<and>
    KBFSOps.SetEx ops ctx (getPathLocked (node s)) (SetattrRequest.Mode req AND 64 \<noteq> 0) (kbfs s) = (Inr p, b)"
  have sz: "Setattr_size ops ctx req SetattrMode s = (Inr SetattrMode, s)"
    by (rule Setattr_size_skip) (simp add: Setattr_flags)
  have nz: "SetattrMode AND SetattrMode \<noteq> 0"
    by (simp add: Setattr_flags)
  have mt: "\<And>t. Setattr_mtime ops ctx req 0 t = (Inr 0, t)"
    by (rule Setattr_mtime_skip) simp
  from a show "Setattr ops ctx req s =
        ((case fst (updatePathLocked p (node s)) of Inl pan \<Rightarrow> Inl pan | Inr u \<Rightarrow> Inr None),
         s\<lparr>node := snd (updatePathLocked p (node s)), kbfs := b,
           calls := calls s @ [Call_SetEx ctx (getPathLocked (node s))
               (SetattrRequest.Mode req AND 64 \<noteq> 0)]\<rparr>)"
    by (simp add: Setattr_def sz Setattr_mode_run [OF nz] mt Setattr_rest_zero split: sum.splits)
next
  assume "Call_SetEx c q e \<in> set (drop (length (calls s)) (calls (snd (Setattr ops ctx req s))))"
  then show "e = (SetattrRequest.Mode req AND 64 \<noteq> 0)"
    by (rule Setattr_SetEx_flag)
next
  assume "m AND 64 = m' AND 64"
  then show "Setattr ops ctx (req\<lparr>SetattrRequest.Mode := m\<rparr>) s =
      Setattr ops ctx (req\<lparr>SetattrRequest.Mode := m'\<rparr>) s"
    by (rule Setattr_Mode)
next
  assume "Attr ops ctx a s0 = (None, a', s0')"
  then show "Attr.Mode a' AND NOT 73 = 420"
    by (rule Attr_mode_bits [THEN conjunct1])
next
  assume "Attr ops ctx a s0 = (None, a', s0')"
  then show "Attr.Mode a' AND 73 = 0 \<or> Attr.Mode a' AND 73 = 73"
    by (rule Attr_mode_bits [THEN conjunct2])
qed

theorem Setattr_mode_exec_bit_witness:
  "Valid (chmod_req 420) = SetattrMode \<and> SetattrMode AND SetattrMode \<noteq> 0 \<and>
   KBFSOps.SetEx demo_ops 0 (getPathLocked (node demo_state))
      (SetattrRequest.Mode (chmod_req 420) AND 64 \<noteq> 0) (kbfs demo_state) =
     (Inr (versioned 8 demo_path), 8) \<and>
   Setattr_mode demo_ops 0 (chmod_req 420) SetattrMode demo_state =
     (Inr 0,
      \<lparr>node = \<lparr>parent = Dir None \<lparr>BlockPointer = 8, Name = ''jdoe''\<rparr>,
                pathNode = \<lparr>BlockPointer = 8, Name = ''myfile''\<rparr>\<rparr>,
        kbfs = 8, calls = [Call_SetEx 0 demo_path False]\<rparr>) \<and>
   Setattr demo_ops 0 (chmod_req 420) demo_state =
     (Inr None,
      \<lparr>node = \<lparr>parent = Dir None \<lparr>BlockPointer = 8, Name = ''jdoe''\<rparr>,
                pathNode = \<lparr>BlockPointer = 8, Name = ''myfile''\<rparr>\<rparr>,
        kbfs = 8, calls = [Call_SetEx 0 demo_path False]\<rparr>) \<and>
   Call_SetEx 0 demo_path False \<in>
     set (drop (length (calls demo_state)) (calls (snd (Setattr demo_ops 0 (chmod_req 420) demo_state)))) \<and>
   False = (SetattrRequest.Mode (chmod_req 420) AND 64 \<noteq> 0) \<and>
   (429 :: 32 word) AND 64 = 420 AND 64 \<and>
   Setattr demo_ops 0 (chmod_req 429) demo_state = Setattr demo_ops 0 (chmod_req 420) demo_state \<and>
   Attr demo_ops 0 demo_attr demo_state =
     (None, demo_attr\<lparr>Attr.Size := 13, Attr.Mtime := 100, Attr.Ctime := 200, Attr.Mode := 493\<rparr>,
      demo_state\<lparr>calls := [Call_Stat 0 demo_path]\<rparr>) \<and>
   (493 :: 32 word) AND NOT 73 = 420 \<and> (493 :: 32 word) AND 73 = 73 \<and>
   Valid mode_mtime_req AND SetattrMode \<noteq> 0 \<and> Valid mode_mtime_req AND SetattrSize = 0 \<and>
   Setattr_size demo_ops 0 mode_mtime_req (Valid mode_mtime_req) demo_state =
     (Inr (Valid mode_mtime_req), demo_state) \<and>
   KBFSOps.SetEx demo_ops 0 (getPathLocked (node demo_state))
      (SetattrRequest.Mode mode_mtime_req AND 64 \<noteq> 0) (kbfs demo_state) =
     (Inr (versioned 8 demo_path), 8) \<and>
   Setattr demo_ops 0 mode_mtime_req demo_state =
     (Inr None,
      \<lparr>node = \<lparr>parent = Dir None \<lparr>BlockPointer = 9, Name = ''jdoe''\<rparr>,
                pathNode = \<lparr>BlockPointer = 9, Name = ''myfile''\<rparr>\<rparr>,
        kbfs = 9,
        calls = [Call_SetEx 0 demo_path True, Call_SetMtime 0 (versioned 8 demo_path) 100]\<rparr>) \<and>
   Valid size_mode_req AND SetattrSize \<noteq> 0 \<and>
   KBFSOps.Truncate demo_ops 0 (getPathLocked (node demo_state)) (SetattrRequest.Size size_mode_req)
      (kbfs demo_state) = (None, 8) \<and>
   Setattr_size demo_ops 0 size_mode_req (Valid size_mode_req) demo_state =
     (Inr SetattrMode, demo_state\<lparr>kbfs := 8, calls := [Call_Truncate 0 demo_path 0]\<rparr>)"
proof -
  let ?a' = "demo_attr\<lparr>Attr.Size := 13, Attr.Mtime := 100, Attr.Ctime := 200, Attr.Mode := 493\<rparr>"
  let ?s' = "demo_state\<lparr>calls := [Call_Stat 0 demo_path]\<rparr>"
  note inst = Setattr_mode_exec_bit [where valid = SetattrMode and ops = demo_ops and ctx = 0
      and s = demo_state and req = "chmod_req 420" and r = "Inr (versioned 8 demo_path)"
      and b = 8 and p = "versioned 8 demo_path" and m = 429 and m' = 420
      and a = demo_attr and ?s0.0 = demo_state and a' = ?a' and s0' = ?s'
      and c = 0 and q = demo_path and e = False]
  have v: "Valid (chmod_req 420) = SetattrMode"
    by (simp add: chmod_req_def)
  have nz: "SetattrMode AND SetattrMode \<noteq> 0"
    by (simp add: Setattr_flags)
  have g: "getPathLocked (node demo_state) = demo_path"
    by (simp add: demo_state_def demo_file_def demo_path_def getPathLocked_def)
  have h: "KBFSOps.SetEx demo_ops 0 (getPathLocked (node demo_state))
      (SetattrRequest.Mode (chmod_req 420) AND 64 \<noteq> 0) (kbfs demo_state) =
     (Inr (versioned 8 demo_path), 8)"
    by (simp add: g) (simp add: demo_ops_def demo_state_def)
  have ex: "(SetattrRequest.Mode (chmod_req 420) AND 64 \<noteq> 0) = False"
    by (simp add: chmod_req_def)
  have u: "updatePathLocked (versioned 8 demo_path) (node demo_state) =
     (Inr (), \<lparr>parent = Dir None \<lparr>BlockPointer = 8, Name = ''jdoe''\<rparr>,
               pathNode = \<lparr>BlockPointer = 8, Name = ''myfile''\<rparr>\<rparr>)"
    by (simp add: demo_state_def demo_file_def demo_path_def versioned_def updatePathLocked_def
        index_def slice_to_def)
  have m: "(429 :: 32 word) AND 64 = 420 AND 64"
    by simp
  have at: "Attr demo_ops 0 demo_attr demo_state = (None, ?a', ?s')"
    by (simp add: Attr_def statPath_def KBFSOps_Stat_def demo_ops_def demo_attr_def demo_state_def
        demo_file_def demo_path_def getPathLocked_def fillAttr_def)
  have c0: "SetattrMode AND NOT SetattrMode = 0"
    by simp
  from inst nz h have "Setattr_mode demo_ops 0 (chmod_req 420) SetattrMode demo_state =
     (case Inr (versioned 8 demo_path) of
        Inl err \<Rightarrow>
          (Inl (Inr (Some err)),
           demo_state\<lparr>kbfs := 8, calls := calls demo_state @ [Call_SetEx 0 (getPathLocked (node demo_state))
                 (SetattrRequest.Mode (chmod_req 420) AND 64 \<noteq> 0)]\<rparr>)
      | Inr p \<Rightarrow>
          ((case fst (updatePathLocked p (node demo_state)) of
              Inl pan \<Rightarrow> Inl (Inl pan)
            | Inr u \<Rightarrow> Inr (SetattrMode AND NOT SetattrMode)),
           demo_state\<lparr>node := snd (updatePathLocked p (node demo_state)), kbfs := 8,
             calls := calls demo_state @ [Call_SetEx 0 (getPathLocked (node demo_state))
                 (SetattrRequest.Mode (chmod_req 420) AND 64 \<noteq> 0)]\<rparr>))"
    by blast
  then have r1: "Setattr_mode demo_ops 0 (chmod_req 420) SetattrMode demo_state =
     (Inr 0,
      \<lparr>node = \<lparr>parent = Dir None \<lparr>BlockPointer = 8, Name = ''jdoe''\<rparr>,
                pathNode = \<lparr>BlockPointer = 8, Name = ''myfile''\<rparr>\<rparr>,
        kbfs = 8, calls = [Call_SetEx 0 demo_path False]\<rparr>)"
    by (simp add: g u ex c0) (simp add: demo_state_def)
  from inst v h have "Setattr demo_ops 0 (chmod_req 420) demo_state =
        ((case fst (updatePathLocked (versioned 8 demo_path) (node demo_state)) of
            Inl pan \<Rightarrow> Inl pan | Inr u \<Rightarrow> Inr None),
         demo_state\<lparr>node := snd (updatePathLocked (versioned 8 demo_path) (node demo_state)), kbfs := 8,
           calls := calls demo_state @ [Call_SetEx 0 (getPathLocked (node demo_state))
               (SetattrRequest.Mode (chmod_req 420) AND 64 \<noteq> 0)]\<rparr>)"
    by blast
  then have r2: "Setattr demo_ops 0 (chmod_req 420) demo_state =
     (Inr None,
      \<lparr>node = \<lparr>parent = Dir None \<lparr>BlockPointer = 8, Name = ''jdoe''\<rparr>,
                pathNode = \<lparr>BlockPointer = 8, Name = ''myfile''\<rparr>\<rparr>,
        kbfs = 8, calls = [Call_SetEx 0 demo_path False]\<rparr>)"
    by (simp add: g u ex) (simp add: demo_state_def)
  have mem: "Call_SetEx 0 demo_path False \<in>
     set (drop (length (calls demo_state)) (calls (snd (Setattr demo_ops 0 (chmod_req 420) demo_state))))"
    by (simp add: r2) (simp add: demo_state_def)
  from inst mem have r6: "False = (SetattrRequest.Mode (chmod_req 420) AND 64 \<noteq> 0)"
    by blast
  from inst m have "Setattr demo_ops 0 ((chmod_req 420)\<lparr>SetattrRequest.Mode := 429\<rparr>) demo_state =
      Setattr demo_ops 0 ((chmod_req 420)\<lparr>SetattrRequest.Mode := 420\<rparr>) demo_state"
    by blast
  then have r3: "Setattr demo_ops 0 (chmod_req 429) demo_state = Setattr demo_ops 0 (chmod_req 420) demo_state"
    by (simp add: chmod_req_def)
  from inst at have r4: "Attr.Mode ?a' AND NOT 73 = 420 \<and> (Attr.Mode ?a' AND 73 = 0 \<or> Attr.Mode ?a' AND 73 = 73)"
    by blast
  have r5: "(493 :: 32 word) AND NOT 73 = 420 \<and> (493 :: 32 word) AND 73 = 73"
    by simp
  note inst2 = Setattr_mode_exec_bit [where ops = demo_ops and ctx = 0 and s = demo_state
      and req = mode_mtime_req and ?v1.0 = "Valid mode_mtime_req" and ?s1.0 = demo_state
      and rx = "Inr (versioned 8 demo_path)" and bx = 8]
  note inst3 = Setattr_mode_exec_bit [where ops = demo_ops and ctx = 0 and s = demo_state
      and req = size_mode_req and ?b0.0 = 8]
  have m2: "Valid mode_mtime_req AND SetattrMode \<noteq> 0"
    by (simp add: mode_mtime_req_def Setattr_flags)
  have z2: "Valid mode_mtime_req AND SetattrSize = 0"
    by (simp add: mode_mtime_req_def Setattr_flags)
  from inst2 z2 have sz2: "Setattr_size demo_ops 0 mode_mtime_req (Valid mode_mtime_req) demo_state =
     (Inr (Valid mode_mtime_req), demo_state)"
    by blast
  have h2: "KBFSOps.SetEx demo_ops 0 (getPathLocked (node demo_state))
      (SetattrRequest.Mode mode_mtime_req AND 64 \<noteq> 0) (kbfs demo_state) =
     (Inr (versioned 8 demo_path), 8)"
    by (simp add: g) (simp add: demo_ops_def demo_state_def)
  have ex2: "(SetattrRequest.Mode mode_mtime_req AND 64 \<noteq> 0) = True"
    by (simp add: mode_mtime_req_def)
  have c2: "Valid mode_mtime_req AND NOT SetattrMode = SetattrMtime"
    by (simp add: mode_mtime_req_def Setattr_flags)
  have mt2: "Setattr_mtime demo_ops 0 mode_mtime_req SetattrMtime
      (demo_state\<lparr>node := \<lparr>parent = Dir None \<lparr>BlockPointer = 8, Name = ''jdoe''\<rparr>,
                              pathNode = \<lparr>BlockPointer = 8, Name = ''myfile''\<rparr>\<rparr>,
         kbfs := 8, calls := calls demo_state @ [Call_SetEx 0 demo_path True]\<rparr>) =
     (Inr 0,
      \<lparr>node = \<lparr>parent = Dir None \<lparr>BlockPointer = 9, Name = ''jdoe''\<rparr>,
                pathNode = \<lparr>BlockPointer = 9, Name = ''myfile''\<rparr>\<rparr>,
        kbfs = 9,
        calls = [Call_SetEx 0 demo_path True, Call_SetMtime 0 (versioned 8 demo_path) 100]\<rparr>)"
    by (simp add: Setattr_mtime_def KBFSOps_SetMtime_def mode_mtime_req_def demo_ops_def
        demo_state_def demo_path_def getPathLocked_def versioned_def updatePathLocked_def
        index_def slice_to_def Setattr_flags)
  note whole = inst2 [THEN conjunct1, THEN mp, OF conjI [OF m2 conjI [OF sz2 h2]]]
  have r7: "Setattr demo_ops 0 mode_mtime_req demo_state =
     (Inr None,
      \<lparr>node = \<lparr>parent = Dir None \<lparr>BlockPointer = 9, Name = ''jdoe''\<rparr>,
                pathNode = \<lparr>BlockPointer = 9, Name = ''myfile''\<rparr>\<rparr>,
        kbfs = 9,
        calls = [Call_SetEx 0 demo_path True, Call_SetMtime 0 (versioned 8 demo_path) 100]\<rparr>)"
    using whole by (simp add: g u ex2 c2 mt2 Setattr_rest_zero)
  have n3: "Valid size_mode_req AND SetattrSize \<noteq> 0"
    by (simp add: size_mode_req_def Setattr_flags)
  have h3: "KBFSOps.Truncate demo_ops 0 (getPathLocked (node demo_state))
      (SetattrRequest.Size size_mode_req) (kbfs demo_state) = (None, 8)"
    by (simp add: demo_ops_def demo_state_def)
  have c3: "Valid size_mode_req AND NOT SetattrSize = SetattrMode"
    by (simp add: size_mode_req_def Setattr_flags)
  from inst3 n3 h3 have "Setattr_size demo_ops 0 size_mode_req (Valid size_mode_req) demo_state =
        (Inr (Valid size_mode_req AND NOT SetattrSize),
         demo_state\<lparr>kbfs := 8, calls := calls demo_state @ [Call_Truncate 0 (getPathLocked (node demo_state))
               (SetattrRequest.Size size_mode_req)]\<rparr>)"
    by blast
  then have r8: "Setattr_size demo_ops 0 size_mode_req (Valid size_mode_req) demo_state =
     (Inr SetattrMode, demo_state\<lparr>kbfs := 8, calls := [Call_Truncate 0 demo_path 0]\<rparr>)"
    by (simp add: g c3) (simp add: demo_state_def size_mode_req_def)
  from v nz h r1 r2 mem r6 m r3 at r4 r5 m2 z2 sz2 h2 r7 n3 h3 r8 show ?thesis
    by blast
qed

text \<open>
  C3, as stated: a requested field that \<^verbatim>\<open>Setattr\<close> does not recognise makes the whole call
  fail with \<^verbatim>\<open>ENOSYS\<close>. It does not always: the flags are checked after the blocks for
  size, mode and modification time have run, and a backend error in one of them is
  returned at once. With a request for the size and the owner, and a backend whose
  Truncate fails, the call returns the backend's error, not \<^verbatim>\<open>ENOSYS\<close>.
\<close>

theorem Setattr_unhandled_counterexample:
  "Valid size_uid_req AND NOT handled \<noteq> 0 \<and>
   fst (Setattr failing_ops 0 size_uid_req demo_state) = Inr (Some (OtherError 5)) \<and>
   fst (Setattr failing_ops 0 size_uid_req demo_state) \<noteq> Inr (Some ENOSYS)"
  by (simp add: size_uid_req_def failing_ops_def demo_state_def Setattr_def Setattr_size_def
      KBFSOps_Truncate_def Setattr_flags)

text \<open>
  C3, amended. Requesting the access time changes nothing: a call with the access-time flag
  added, and any access-time value, returns the same result and leaves the same state,
  backend calls included, as the call without it; a request of the access time alone
  returns no error and makes no backend call. A request with a flag that \<^verbatim>\<open>Setattr\<close> does
  not recognise never returns success; it returns \<^verbatim>\<open>ENOSYS\<close> whenever the blocks for size,
  mode and modification time all run to their end, and otherwise the call returns what the
  first block that stops returns, in the state that block leaves. A block stops only with
  the error of its backend call (Truncate, SetEx or SetMtime), or with the panic of path
  propagation on the Path that SetEx or SetMtime returned.
\<close>

theorem Setattr_atime_and_unhandled:
  "Setattr ops ctx (req\<lparr>Valid := Valid req OR SetattrAtime, SetattrRequest.Atime := t\<rparr>) s =
     Setattr ops ctx req s \<and>
   (Valid req = SetattrAtime \<longrightarrow> Setattr ops ctx req s = (Inr None, s)) \<and>
   (Valid req AND NOT handled \<noteq> 0 \<longrightarrow> fst (Setattr ops ctx req s) \<noteq> Inr None) \<and>
   (Valid req AND NOT handled \<noteq> 0 \<and>
    Setattr_size ops ctx req (Valid req) s = (Inr v1, s1) \<and>
    Setattr_mode ops ctx req v1 s1 = (Inr v2, s2) \<and>
    Setattr_mtime ops ctx req v2 s2 = (Inr v3, s3) \<longrightarrow>
      Setattr ops ctx req s = (Inr (Some ENOSYS), s3)) \<and>
   (Setattr_size ops ctx req (Valid req) s = (Inl ra, sa) \<longrightarrow>
      Setattr ops ctx req s = (ra, sa)) \<and>
   (Setattr_size ops ctx req (Valid req) s = (Inr w1, t1) \<and>
    Setattr_mode ops ctx req w1 t1 = (Inl rb, sb) \<longrightarrow>
      Setattr ops ctx req s = (rb, sb)) \<and>
   (Setattr_size ops ctx req (Valid req) s = (Inr x1, u1) \<and>
    Setattr_mode ops ctx req x1 u1 = (Inr x2, u2) \<and>
    Setattr_mtime ops ctx req x2 u2 = (Inl rc, sc) \<longrightarrow>
      Setattr ops ctx req s = (rc, sc)) \<and>
   (Setattr_size ops ctx req va sd = (Inl rd, sd') \<longrightarrow>
      (\<exists>err b. KBFSOps.Truncate ops ctx (getPathLocked (node sd)) (SetattrRequest.Size req) (kbfs sd) =
                 (Some err, b) \<and> rd = Inr (Some err))) \<and>
   (Setattr_mode ops ctx req vb se = (Inl re, se') \<longrightarrow>
      (\<exists>err b. KBFSOps.SetEx ops ctx (getPathLocked (node se))
                 (SetattrRequest.Mode req AND 64 \<noteq> 0) (kbfs se) = (Inl err, b) \<and>
               re = Inr (Some err)) \<or>
      (\<exists>p b pan. KBFSOps.SetEx ops ctx (getPathLocked (node se))
                 (SetattrRequest.Mode req AND 64 \<noteq> 0) (kbfs se) = (Inr p, b) \<and>
               fst (updatePathLocked p (node se)) = Inl pan \<and> re = Inl pan)) \<and>
   (Setattr_mtime ops ctx req vc sf = (Inl rf, sf') \<longrightarrow>
      (\<exists>err b. KBFSOps.SetMtime ops ctx (getPathLocked (node sf))
                 (SetattrRequest.Mtime req) (kbfs sf) = (Inl err, b) \<and>
               rf = Inr (Some err)) \<or>
      (\<exists>p b pan. KBFSOps.SetMtime ops ctx (getPathLocked (node sf))
                 (SetattrRequest.Mtime req) (kbfs sf) = (Inr p, b) \<and>
               fst (updatePathLocked p (node sf)) = Inl pan \<and> rf = Inl pan))"
proof (intro conjI impI)
  show "Setattr ops ctx (req\<lparr>Valid := Valid req OR SetattrAtime, SetattrRequest.Atime := t\<rparr>) s =
     Setattr ops ctx req s"
    by (rule Setattr_atime_ignored)
next
  assume "Valid req = SetattrAtime"
  then show "Setattr ops ctx req s = (Inr None, s)"
    by (rule Setattr_atime_only)
next
  assume "Valid req AND NOT handled \<noteq> 0"
  then show "fst (Setattr ops ctx req s) \<noteq> Inr None"
    by (rule Setattr_never_succeeds)
next
  assume "Valid req AND NOT handled \<noteq> 0 \<and>
    Setattr_size ops ctx req (Valid req) s = (Inr v1, s1) \<and>
    Setattr_mode ops ctx req v1 s1 = (Inr v2, s2) \<and>
    Setattr_mtime ops ctx req v2 s2 = (Inr v3, s3)"
  then show "Setattr ops ctx req s = (Inr (Some ENOSYS), s3)"
    by (simp add: Setattr_falls_through [of ops ctx req s v1 s1 v2 s2 v3 s3])
next
  assume "Setattr_size ops ctx req (Valid req) s = (Inl ra, sa)"
  then show "Setattr ops ctx req s = (ra, sa)"
    by (rule Setattr_stops_in_size)
next
  assume "Setattr_size ops ctx req (Valid req) s = (Inr w1, t1) \<and>
    Setattr_mode ops ctx req w1 t1 = (Inl rb, sb)"
  then show "Setattr ops ctx req s = (rb, sb)"
    by (simp add: Setattr_stops_in_mode [of ops ctx req s w1 t1 rb sb])
next
  assume "Setattr_size ops ctx req (Valid req) s = (Inr x1, u1) \<and>
    Setattr_mode ops ctx req x1 u1 = (Inr x2, u2) \<and>
    Setattr_mtime ops ctx req x2 u2 = (Inl rc, sc)"
  then show "Setattr ops ctx req s = (rc, sc)"
    by (simp add: Setattr_stops_in_mtime [of ops ctx req s x1 u1 x2 u2 rc sc])
next
  assume "Setattr_size ops ctx req va sd = (Inl rd, sd')"
  then show "\<exists>err b. KBFSOps.Truncate ops ctx (getPathLocked (node sd)) (SetattrRequest.Size req) (kbfs sd) =
                 (Some err, b) \<and> rd = Inr (Some err)"
    by (rule Setattr_size_stops)
next
  assume "Setattr_mode ops ctx req vb se = (Inl re, se')"
  then show "(\<exists>err b. KBFSOps.SetEx ops ctx (getPathLocked (node se))
                 (SetattrRequest.Mode req AND 64 \<noteq> 0) (kbfs se) = (Inl err, b) \<and>
               re = Inr (Some err)) \<or>
      (\<exists>p b pan. KBFSOps.SetEx ops ctx (getPathLocked (node se))
                 (SetattrRequest.Mode req AND 64 \<noteq> 0) (kbfs se) = (Inr p, b) \<and>
               fst (updatePathLocked p (node se)) = Inl pan \<and> re = Inl pan)"
    by (rule Setattr_mode_stops)
next
  assume "Setattr_mtime ops ctx req vc sf = (Inl rf, sf')"
  then show "(\<exists>err b. KBFSOps.SetMtime ops ctx (getPathLocked (node sf))
                 (SetattrRequest.Mtime req) (kbfs sf) = (Inl err, b) \<and>
               rf = Inr (Some err)) \<or>
      (\<exists>p b pan. KBFSOps.SetMtime ops ctx (getPathLocked (node sf))
                 (SetattrRequest.Mtime req) (kbfs sf) = (Inr p, b) \<and>
               fst (updatePathLocked p (node sf)) = Inl pan \<and> rf = Inl pan)"
    by (rule Setattr_mtime_stops)
qed

theorem Setattr_atime_and_unhandled_witness:
  "Valid atime_req = SetattrAtime \<and>
   Setattr demo_ops 0 atime_req demo_state = (Inr None, demo_state) \<and>
   Valid size_uid_req AND NOT handled \<noteq> 0 \<and>
   Setattr_size demo_ops 0 size_uid_req (Valid size_uid_req) demo_state =
     (Inr SetattrUid, demo_state\<lparr>kbfs := 8, calls := [Call_Truncate 0 demo_path 0]\<rparr>) \<and>
   Setattr_mode demo_ops 0 size_uid_req SetattrUid
       (demo_state\<lparr>kbfs := 8, calls := [Call_Truncate 0 demo_path 0]\<rparr>) =
     (Inr SetattrUid, demo_state\<lparr>kbfs := 8, calls := [Call_Truncate 0 demo_path 0]\<rparr>) \<and>
   Setattr_mtime demo_ops 0 size_uid_req SetattrUid
       (demo_state\<lparr>kbfs := 8, calls := [Call_Truncate 0 demo_path 0]\<rparr>) =
     (Inr SetattrUid, demo_state\<lparr>kbfs := 8, calls := [Call_Truncate 0 demo_path 0]\<rparr>) \<and>
   Setattr demo_ops 0 size_uid_req demo_state =
     (Inr (Some ENOSYS), demo_state\<lparr>kbfs := 8, calls := [Call_Truncate 0 demo_path 0]\<rparr>) \<and>
   fst (Setattr failing_ops 0 size_uid_req demo_state) \<noteq> Inr None \<and>
   Setattr_size failing_ops 0 size_uid_req (Valid size_uid_req) demo_state =
     (Inl (Inr (Some (OtherError 5))), demo_state\<lparr>calls := [Call_Truncate 0 demo_path 0]\<rparr>) \<and>
   Setattr failing_ops 0 size_uid_req demo_state =
     (Inr (Some (OtherError 5)), demo_state\<lparr>calls := [Call_Truncate 0 demo_path 0]\<rparr>) \<and>
   KBFSOps.Truncate failing_ops 0 (getPathLocked (node demo_state)) (SetattrRequest.Size size_uid_req)
      (kbfs demo_state) = (Some (OtherError 5), 7) \<and>
   Setattr_size failing_ops 0 mode_uid_req (Valid mode_uid_req) demo_state =
     (Inr (Valid mode_uid_req), demo_state) \<and>
   Setattr_mode failing_ops 0 mode_uid_req (Valid mode_uid_req) demo_state =
     (Inl (Inr (Some (OtherError 5))), demo_state\<lparr>calls := [Call_SetEx 0 demo_path True]\<rparr>) \<and>
   Setattr failing_ops 0 mode_uid_req demo_state =
     (Inr (Some (OtherError 5)), demo_state\<lparr>calls := [Call_SetEx 0 demo_path True]\<rparr>) \<and>
   Setattr_mode failing_ops 0 mtime_uid_req (Valid mtime_uid_req) demo_state =
     (Inr (Valid mtime_uid_req), demo_state) \<and>
   Setattr_mtime failing_ops 0 mtime_uid_req (Valid mtime_uid_req) demo_state =
     (Inl (Inr (Some (OtherError 5))), demo_state\<lparr>calls := [Call_SetMtime 0 demo_path 100]\<rparr>) \<and>
   Setattr failing_ops 0 mtime_uid_req demo_state =
     (Inr (Some (OtherError 5)), demo_state\<lparr>calls := [Call_SetMtime 0 demo_path 100]\<rparr>)"
proof -
  let ?s1 = "demo_state\<lparr>kbfs := 8, calls := [Call_Truncate 0 demo_path 0]\<rparr>"
  note working = Setattr_atime_and_unhandled [where ops = demo_ops and ctx = 0
      and req = size_uid_req and s = demo_state and ?v1.0 = SetattrUid and ?s1.0 = ?s1
      and ?v2.0 = SetattrUid and ?s2.0 = ?s1 and ?v3.0 = SetattrUid and ?s3.0 = ?s1]
  note failing = Setattr_atime_and_unhandled [where ops = failing_ops and ctx = 0
      and req = size_uid_req and s = demo_state]
  note atime = Setattr_atime_and_unhandled [where ops = demo_ops and ctx = 0
      and req = atime_req and s = demo_state]
  have a: "Valid atime_req = SetattrAtime"
    by (simp add: atime_req_def)
  have u: "Valid size_uid_req AND NOT handled \<noteq> 0"
    by (simp add: size_uid_req_def Setattr_flags)
  have c: "(SetattrSize OR SetattrUid) AND NOT SetattrSize = SetattrUid"
    by (simp add: Setattr_flags)
  have b1: "Setattr_size demo_ops 0 size_uid_req (Valid size_uid_req) demo_state = (Inr SetattrUid, ?s1)"
    by (simp add: Setattr_size_def KBFSOps_Truncate_def size_uid_req_def demo_ops_def c
        demo_state_def demo_file_def demo_path_def getPathLocked_def)
      (simp add: Setattr_flags)
  have b2: "Setattr_mode demo_ops 0 size_uid_req SetattrUid ?s1 = (Inr SetattrUid, ?s1)"
    by (rule Setattr_mode_skip) (simp add: Setattr_flags)
  have b3: "Setattr_mtime demo_ops 0 size_uid_req SetattrUid ?s1 = (Inr SetattrUid, ?s1)"
    by (rule Setattr_mtime_skip) (simp add: Setattr_flags)
  have r1: "Setattr demo_ops 0 atime_req demo_state = (Inr None, demo_state)"
    by (rule atime [THEN conjunct2, THEN conjunct1, THEN mp, OF a])
  have r2: "Setattr demo_ops 0 size_uid_req demo_state = (Inr (Some ENOSYS), ?s1)"
    by (rule working [THEN conjunct2, THEN conjunct2, THEN conjunct2, THEN conjunct1, THEN mp, OF conjI [OF u conjI [OF b1 conjI [OF b2 b3]]]])
  have r3: "fst (Setattr failing_ops 0 size_uid_req demo_state) \<noteq> Inr None"
    by (rule failing [THEN conjunct2, THEN conjunct2, THEN conjunct1, THEN mp, OF u])
  let ?t1 = "demo_state\<lparr>calls := [Call_Truncate 0 demo_path 0]\<rparr>"
  let ?t2 = "demo_state\<lparr>calls := [Call_SetEx 0 demo_path True]\<rparr>"
  let ?t3 = "demo_state\<lparr>calls := [Call_SetMtime 0 demo_path 100]\<rparr>"
  note in_size = Setattr_atime_and_unhandled [where ops = failing_ops and ctx = 0
      and req = size_uid_req and s = demo_state and ra = "Inr (Some (OtherError 5))" and sa = ?t1
      and va = "Valid size_uid_req" and sd = demo_state and rd = "Inr (Some (OtherError 5))"
      and sd' = ?t1]
  note in_mode = Setattr_atime_and_unhandled [where ops = failing_ops and ctx = 0
      and req = mode_uid_req and s = demo_state and ?w1.0 = "Valid mode_uid_req"
      and ?t1.0 = demo_state and rb = "Inr (Some (OtherError 5))" and sb = ?t2]
  note in_mtime = Setattr_atime_and_unhandled [where ops = failing_ops and ctx = 0
      and req = mtime_uid_req and s = demo_state and ?x1.0 = "Valid mtime_uid_req"
      and ?u1.0 = demo_state and ?x2.0 = "Valid mtime_uid_req" and ?u2.0 = demo_state
      and rc = "Inr (Some (OtherError 5))" and sc = ?t3]
  have f1: "Setattr_size failing_ops 0 size_uid_req (Valid size_uid_req) demo_state =
     (Inl (Inr (Some (OtherError 5))), ?t1)"
    by (simp add: Setattr_size_def KBFSOps_Truncate_def size_uid_req_def failing_ops_def
        demo_state_def demo_file_def demo_path_def getPathLocked_def Setattr_flags)
  have q1: "Setattr failing_ops 0 size_uid_req demo_state =
     (Inr (Some (OtherError 5)), ?t1)"
    by (rule in_size [THEN conjunct2, THEN conjunct2, THEN conjunct2, THEN conjunct2, THEN conjunct1, THEN mp, OF f1])
  have "\<exists>err b. KBFSOps.Truncate failing_ops 0 (getPathLocked (node demo_state))
      (SetattrRequest.Size size_uid_req) (kbfs demo_state) = (Some err, b) \<and>
      (Inr (Some (OtherError 5)) :: result) = Inr (Some err)"
    by (rule in_size [THEN conjunct2, THEN conjunct2, THEN conjunct2, THEN conjunct2, THEN conjunct2, THEN conjunct2, THEN conjunct2, THEN conjunct1, THEN mp, OF f1])
  then have q2: "KBFSOps.Truncate failing_ops 0 (getPathLocked (node demo_state))
      (SetattrRequest.Size size_uid_req) (kbfs demo_state) = (Some (OtherError 5), 7)"
    by (simp add: failing_ops_def demo_state_def)
  have f2: "Setattr_size failing_ops 0 mode_uid_req (Valid mode_uid_req) demo_state =
     (Inr (Valid mode_uid_req), demo_state)"
    by (rule Setattr_size_skip) (simp add: mode_uid_req_def Setattr_flags)
  have f3: "Setattr_mode failing_ops 0 mode_uid_req (Valid mode_uid_req) demo_state =
     (Inl (Inr (Some (OtherError 5))), ?t2)"
    by (simp add: Setattr_mode_def KBFSOps_SetEx_def mode_uid_req_def failing_ops_def
        demo_state_def demo_file_def demo_path_def getPathLocked_def Setattr_flags)
  have q3: "Setattr failing_ops 0 mode_uid_req demo_state =
     (Inr (Some (OtherError 5)), ?t2)"
    by (rule in_mode [THEN conjunct2, THEN conjunct2, THEN conjunct2, THEN conjunct2, THEN conjunct2, THEN conjunct1, THEN mp, OF conjI [OF f2 f3]])
  have f4: "Setattr_size failing_ops 0 mtime_uid_req (Valid mtime_uid_req) demo_state =
     (Inr (Valid mtime_uid_req), demo_state)"
    by (rule Setattr_size_skip) (simp add: mtime_uid_req_def Setattr_flags)
  have f5: "Setattr_mode failing_ops 0 mtime_uid_req (Valid mtime_uid_req) demo_state =
     (Inr (Valid mtime_uid_req), demo_state)"
    by (rule Setattr_mode_skip) (simp add: mtime_uid_req_def Setattr_flags)
  have f6: "Setattr_mtime failing_ops 0 mtime_uid_req (Valid mtime_uid_req) demo_state =
     (Inl (Inr (Some (OtherError 5))), ?t3)"
    by (simp add: Setattr_mtime_def KBFSOps_SetMtime_def mtime_uid_req_def failing_ops_def
        demo_state_def demo_file_def demo_path_def getPathLocked_def Setattr_flags)
  have q4: "Setattr failing_ops 0 mtime_uid_req demo_state =
     (Inr (Some (OtherError 5)), ?t3)"
    by (rule in_mtime [THEN conjunct2, THEN conjunct2, THEN conjunct2, THEN conjunct2, THEN conjunct2, THEN conjunct2, THEN conjunct1, THEN mp, OF conjI [OF f4 conjI [OF f5 f6]]])
  from a r1 u b1 b2 b3 r2 r3 f1 q1 q2 f2 f3 q3 f5 f6 q4 show ?thesis
    by (intro conjI)
qed

section \<open>Rename across roots: the claim\<close>

text \<open>
  C8. A rename whose source and destination lie under different roots always fails, with
  the link error that carries the operation name \<^verbatim>\<open>rename\<close>, the two paths and the
  cross-device code; the mount is returned as it was, so no root is modified and no
  backend call is made.
\<close>

theorem Rename_cross_root:
  assumes "fst old \<noteq> fst new"
  shows "Rename backend_rename old new m =
           (Some \<lparr>Op = ''rename'', Old = old, New = new, Err = EXDEV\<rparr>, m)"
  using assms by (simp add: Rename_def)

theorem Rename_cross_root_witness:
  "fst (''jdoe'', [''old'']) \<noteq> fst (''wsmith,jdoe'', [''new'']) \<and>
   Rename tree_rename (''jdoe'', [''old'']) (''wsmith,jdoe'', [''new'']) demo_mount =
     (Some \<lparr>Op = ''rename'', Old = (''jdoe'', [''old'']), New = (''wsmith,jdoe'', [''new'']),
             Err = EXDEV\<rparr>,
      demo_mount) \<and>
   folders demo_mount ''jdoe'' [''old''] = Some ''hello, world'' \<and>
   folders demo_mount ''wsmith,jdoe'' [''new''] = None \<and>
   backend_calls demo_mount = []"
  using Rename_cross_root [of "(''jdoe'', [''old''])" "(''wsmith,jdoe'', [''new''])" tree_rename demo_mount]
  by (simp add: demo_mount_def)

end
